theory Spec2Isabelle
  imports Complex_Main "HOL-Library.Word"
begin

section \<open>Motion planner of the delivery screen (DeliverySystem component)\<close>

text \<open>
  The renderer keeps the robot's believed pose in \<open>DeliveryState\<close>: a grid position and a
  facing direction, one of the strings "up", "right", "down", "left". Grid coordinates are
  JavaScript numbers that only ever hold integers here, so they are modelled by \<open>int\<close>.
\<close>

datatype direction = Up | Right | Down | Left

record Position =
  x :: int
  y :: int

text \<open>\<open>Array.prototype.indexOf\<close>: the first index holding the value, or -1.\<close>

fun indexOf :: "'a list \<Rightarrow> 'a \<Rightarrow> int" where
  "indexOf [] v = -1"
| "indexOf (a # as) v = (if a = v then 0 else (let i = indexOf as v in if i < 0 then -1 else i + 1))"

text \<open>JavaScript's \<open>%\<close> on integers: the remainder takes the sign of the dividend.\<close>

definition js_rem :: "int \<Rightarrow> int \<Rightarrow> int" where
  "js_rem a b = sgn a * (\<bar>a\<bar> mod \<bar>b\<bar>)"

text \<open>The array \<open>directions\<close> local to \<open>calculateTurnAngle\<close> and \<open>getNewDirection\<close>.\<close>

definition directions :: "direction list" where
  "directions = [Up, Right, Down, Left]"

definition calculateTurnAngle :: "direction \<Rightarrow> direction \<Rightarrow> int" where
  "calculateTurnAngle currentDir targetDir =
     (let currentIndex = indexOf directions currentDir;
          targetIndex = indexOf directions targetDir;
          turnSteps = targetIndex - currentIndex;
          turnSteps = (if turnSteps > 2 then turnSteps - 4 else turnSteps);
          turnSteps = (if turnSteps < -2 then turnSteps + 4 else turnSteps)
      in turnSteps * 90)"

fun getDirectionFromDelta :: "int \<Rightarrow> int \<Rightarrow> direction option" where
  "getDirectionFromDelta dx dy =
     (if dx > 0 then Some Right
      else if dx < 0 then Some Left
      else if dy > 0 then Some Down
      else if dy < 0 then Some Up
      else None)"

text \<open>
  \<open>getNewDirection\<close> divides the angle by 90 and indexes the array with
  \<open>(currentIndex + turns + 4) % 4\<close>. An angle that is no multiple of 90 gives a
  fractional index and a negative sum gives a negative one; both read \<open>undefined\<close> from
  the array, which is the result \<open>None\<close> here.
\<close>

definition getNewDirection :: "direction \<Rightarrow> int \<Rightarrow> direction option" where
  "getNewDirection currentDir angle =
     (if angle mod 90 \<noteq> 0 then None
      else (let currentIndex = indexOf directions currentDir;
                turns = angle div 90;
                newIndex = js_rem (currentIndex + turns + 4) 4
            in if 0 \<le> newIndex \<and> newIndex < 4 then Some (directions ! nat newIndex) else None))"

subsection \<open>One step of the delivery: \<open>moveRobot\<close>\<close>

datatype status = moving | arrived | delivered | returning | complete

record DeliveryState =
  currentPath :: "Position list"
  currentStep :: int
  robotPosition :: Position
  robotDirection :: direction
  moving_flag :: bool \<comment> \<open>the field \<open>isMoving\<close> of \<open>DeliveryState\<close>\<close>
  currentTable :: "nat option"
  showModal :: bool
  deliveryStatus :: status

text \<open>
  Table names are the strings "T1" .. "T8"; a name "T<n>" is modelled by the number \<open>n\<close>,
  which is also what \<open>parseInt(name.replace("T", ""))\<close> computes from it. A name that is
  no key of \<open>TABLE_POSITIONS\<close> reads \<open>undefined\<close> there.
\<close>

definition TABLE_POSITIONS :: "nat \<Rightarrow> Position option" where
  "TABLE_POSITIONS t =
     (if t = 1 then Some \<lparr>x = 1, y = 0\<rparr>
      else if t = 2 then Some \<lparr>x = 3, y = 0\<rparr>
      else if t = 3 then Some \<lparr>x = 1, y = 1\<rparr>
      else if t = 4 then Some \<lparr>x = 3, y = 1\<rparr>
      else if t = 5 then Some \<lparr>x = 1, y = 2\<rparr>
      else if t = 6 then Some \<lparr>x = 3, y = 2\<rparr>
      else if t = 7 then Some \<lparr>x = 1, y = 3\<rparr>
      else if t = 8 then Some \<lparr>x = 3, y = 3\<rparr>
      else None)"

definition ROBOT_START_POSITION :: Position where
  "ROBOT_START_POSITION = \<lparr>x = 2, y = 4\<rparr>"

text \<open>Reading \<open>path[i]\<close>: \<open>undefined\<close> outside the array.\<close>

definition at_index :: "'a list \<Rightarrow> int \<Rightarrow> 'a option" where
  "at_index xs i = (if 0 \<le> i \<and> i < int (length xs) then Some (xs ! nat i) else None)"

text \<open>The calls made on \<open>window.robot\<close>, in the order they are made.\<close>

datatype speed = normal | precision | fast

datatype robot_call =
    TurnAngleCall int
  | MoveDistanceCall int speed
  | TableArrivedCall nat

text \<open>
  What can go wrong inside the state update: a selected table that is no key of
  \<open>TABLE_POSITIONS\<close> makes \<open>tablePos.x\<close> throw, and a position or a direction read
  outside its array would be \<open>undefined\<close>; the update then has no pose to give.
\<close>

datatype failure = TypeError | UndefinedDirection | UndefinedPosition

text \<open>
  \<open>selectedTables.find(...)\<close> of the state update: the first selected table whose position
  is the given one; looking at a table without a position throws.
\<close>

fun findTableAt :: "nat list \<Rightarrow> Position \<Rightarrow> failure + nat option" where
  "findTableAt [] p = Inr None"
| "findTableAt (t # ts) p =
     (case TABLE_POSITIONS t of
        None \<Rightarrow> Inl TypeError
      | Some tablePos \<Rightarrow>
          if x tablePos = x p \<and> y tablePos = y p then Inr (Some t) else findTableAt ts p)"

text \<open>
  The function passed to \<open>setDeliveryState\<close> at the end of \<open>moveRobot\<close>: from the
  previous state and the turn angle computed before the calls, the calls it makes
  (the table LED) and the next state.
\<close>

definition advanceState ::
  "bool \<Rightarrow> nat list \<Rightarrow> int \<Rightarrow> DeliveryState \<Rightarrow> robot_call list \<times> (failure + DeliveryState)" where
  "advanceState arduinoConnected selectedTables turnAngle prev =
     (if currentStep prev \<ge> int (length (currentPath prev)) - 1
      then ([], Inr (prev\<lparr>moving_flag := False, deliveryStatus := complete\<rparr>))
      else
        (let nextStep = currentStep prev + 1 in
         (case at_index (currentPath prev) nextStep of
            None \<Rightarrow> ([], Inl UndefinedPosition)
          | Some nextPosition \<Rightarrow>
             (case (if turnAngle \<noteq> 0 then getNewDirection (robotDirection prev) turnAngle
                    else Some (robotDirection prev)) of
                None \<Rightarrow> ([], Inl UndefinedDirection)
              | Some newDirection \<Rightarrow>
                 (case findTableAt selectedTables nextPosition of
                    Inl e \<Rightarrow> ([], Inl e)
                  | Inr None \<Rightarrow>
                      ([], Inr (prev\<lparr>currentStep := nextStep,
                                      robotPosition := nextPosition,
                                      robotDirection := newDirection,
                                      moving_flag := True\<rparr>))
                  | Inr (Some tableAtPosition) \<Rightarrow>
                      ((if arduinoConnected \<and> tableAtPosition \<ge> 1 \<and> tableAtPosition \<le> 3
                        then [TableArrivedCall tableAtPosition] else []),
                       Inr (prev\<lparr>currentStep := nextStep,
                                  robotPosition := nextPosition,
                                  robotDirection := newDirection,
                                  currentTable := Some tableAtPosition,
                                  showModal := True,
                                  deliveryStatus := arrived\<rparr>)))))))"

text \<open>
  The calls of one segment: the turn, when the angle is not 0, then the move of one grid
  unit (24 inches at "normal" speed); nothing when the Arduino is not connected.
\<close>

definition segmentCalls :: "bool \<Rightarrow> int \<Rightarrow> robot_call list" where
  "segmentCalls arduinoConnected turnAngle =
     (if arduinoConnected
      then (if turnAngle \<noteq> 0 then [TurnAngleCall turnAngle] else []) @ [MoveDistanceCall 24 normal]
      else [])"

text \<open>
  \<open>moveRobot\<close> takes the two refs (\<open>isMovingRef\<close>, \<open>isMountedRef\<close>), the connection flag
  and the selected tables, and gives the calls it made on the robot and the delivery state
  it leaves. The waits between the calls do not change the state and are left out; the
  state update sees the state the step started from.
\<close>

definition moveRobot ::
  "bool \<Rightarrow> bool \<Rightarrow> bool \<Rightarrow> nat list \<Rightarrow> DeliveryState \<Rightarrow> robot_call list \<times> (failure + DeliveryState)" where
  "moveRobot isMovingRef isMountedRef arduinoConnected selectedTables deliveryState =
     (if isMovingRef then ([], Inr deliveryState)
      else
        (let currentPos = robotPosition deliveryState;
             currentDir = robotDirection deliveryState in
         (case at_index (currentPath deliveryState) (currentStep deliveryState + 1) of
            None \<Rightarrow>
              ([], Inr (if isMountedRef
                        then deliveryState\<lparr>moving_flag := False, deliveryStatus := complete\<rparr>
                        else deliveryState))
          | Some nextPos \<Rightarrow>
              (let dx = x nextPos - x currentPos;
                   dy = y nextPos - y currentPos in
               (case getDirectionFromDelta dx dy of
                  None \<Rightarrow> ([], Inr deliveryState)
                | Some targetDir \<Rightarrow>
                    (let turnAngle = calculateTurnAngle currentDir targetDir;
                         calls = segmentCalls arduinoConnected turnAngle in
                     (if \<not> isMountedRef then (calls, Inr deliveryState)
                      else (let (ledCalls, next) =
                                  advanceState arduinoConnected selectedTables turnAngle deliveryState
                            in (calls @ ledCalls, next)))))))))"

text \<open>
  The steps of a delivery one after the other, as the auto-move effect schedules them while
  the component stays mounted and no step is in flight: the calls of each step, in order,
  and the last state.
\<close>

fun moveRobotSteps ::
  "nat \<Rightarrow> bool \<Rightarrow> nat list \<Rightarrow> DeliveryState \<Rightarrow> robot_call list list \<times> (failure + DeliveryState)" where
  "moveRobotSteps 0 arduinoConnected selectedTables st = ([], Inr st)"
| "moveRobotSteps (Suc n) arduinoConnected selectedTables st =
     (case moveRobot False True arduinoConnected selectedTables st of
        (calls, Inl e) \<Rightarrow> ([calls], Inl e)
      | (calls, Inr st') \<Rightarrow>
          (let (rest, final) = moveRobotSteps n arduinoConnected selectedTables st'
           in (calls # rest, final)))"

text \<open>The state \<open>startDelivery\<close> sets for a route found by the pathfinder.\<close>

definition startState :: "Position list \<Rightarrow> DeliveryState" where
  "startState path =
     \<lparr>currentPath = path, currentStep = 0, robotPosition = ROBOT_START_POSITION,
      robotDirection = Up, moving_flag = True, currentTable = None, showModal = False,
      deliveryStatus = moving\<rparr>"

section \<open>Host controller (class \<open>ArduinoController\<close>)\<close>

text \<open>
  The controller keeps its own pose, with the facing as one of "north", "south", "east",
  "west", and a serial port. JavaScript numbers that carry distances and angles are
  modelled by exact reals.
\<close>

datatype cardinal = north | south | east | west

record RobotPosition = Position +
  direction :: cardinal

datatype movement = forward | left | right

text \<open>
  A line handed to \<open>port.write\<close>. \<open>MoveDistanceLine v\<close> stands for the text
  \<open>MOVE_DISTANCE:\<close> followed by \<open>v.toFixed(2)\<close>, \<open>TurnAngleLine v\<close> for \<open>TURN_ANGLE:\<close>
  followed by \<open>v.toFixed(1)\<close>, and \<open>PlainLine s\<close> for the text \<open>s\<close> itself.
\<close>

datatype host_line = MoveDistanceLine real | TurnAngleLine real | PlainLine string

datatype console_entry =
    NotConnected host_line
  | CommandTimeout host_line
  | ErrorSending host_line
  | CommandSent host_line
  | ExceptionInSend
  | InvalidDistance real
  | NoTurnNeeded
  | MovingLog real speed
  | TurningLog real speed
  | ExpectedDuration real
  | PositionUpdated

record ArduinoController =
  port :: bool \<comment> \<open>\<open>this.port\<close> is not null\<close>
  isConnected :: bool
  currentPosition :: RobotPosition

text \<open>
  What the serial port does with one \<open>write\<close>: it throws, or it calls the callback back
  after some milliseconds with or without an error, or it never calls back.
\<close>

datatype write_behaviour = WriteThrows | CallbackAfter nat bool | NoCallback

datatype promise = Pending | Resolved | Rejected

text \<open>A promise settles once: later calls of \<open>resolve\<close> or \<open>reject\<close> change nothing.\<close>

definition resolve :: "promise \<Rightarrow> promise" where
  "resolve p = (if p = Pending then Resolved else p)"

definition reject :: "promise \<Rightarrow> promise" where
  "reject p = (if p = Pending then Rejected else p)"

record send_state =
  outcome :: promise
  settledAt :: "nat option" \<comment> \<open>milliseconds after the call at which the promise settled\<close>
  timeoutArmed :: bool
  attempted :: "host_line list" \<comment> \<open>the lines handed to \<open>port.write\<close>\<close>
  console :: "console_entry list"

datatype send_event = TimeoutFires | WriteCallback bool

definition settle :: "nat \<Rightarrow> send_state \<Rightarrow> send_state" where
  "settle t s = (if outcome s = Pending then s\<lparr>outcome := Resolved, settledAt := Some t\<rparr> else s)"

text \<open>
  The two callbacks of \<open>sendCommand\<close>: the timer set with \<open>setTimeout(..., 5000)\<close>, which
  does nothing once \<open>clearTimeout\<close> disarmed it, and the callback of \<open>port.write\<close>.
\<close>

fun handle_event :: "host_line \<Rightarrow> nat \<times> send_event \<Rightarrow> send_state \<Rightarrow> send_state" where
  "handle_event command (t, TimeoutFires) s =
     (if timeoutArmed s
      then settle t (s\<lparr>timeoutArmed := False, console := console s @ [CommandTimeout command]\<rparr>)
      else s)"
| "handle_event command (t, WriteCallback err) s =
     (let s1 = s\<lparr>timeoutArmed := False\<rparr> in
      if err then settle t (s1\<lparr>console := console s1 @ [ErrorSending command]\<rparr>)
      else settle t (s1\<lparr>console := console s1 @ [CommandSent command]\<rparr>))"

text \<open>The callbacks that run after the executor returned, in the order of their times.\<close>

definition later_events :: "write_behaviour \<Rightarrow> (nat \<times> send_event) list" where
  "later_events w =
     (case w of
        WriteThrows \<Rightarrow> [(5000, TimeoutFires)]
      | NoCallback \<Rightarrow> [(5000, TimeoutFires)]
      | CallbackAfter t err \<Rightarrow>
          (if t < 5000 then [(t, WriteCallback err), (5000, TimeoutFires)]
           else [(5000, TimeoutFires), (t, WriteCallback err)]))"

definition sendCommand :: "ArduinoController \<Rightarrow> host_line \<Rightarrow> write_behaviour \<Rightarrow> send_state" where
  "sendCommand c command w =
     (if \<not> port c \<or> \<not> isConnected c
      then \<lparr>outcome = Resolved, settledAt = Some 0, timeoutArmed = False, attempted = [],
            console = [NotConnected command]\<rparr>
      else
        (let s0 = \<lparr>outcome = Pending, settledAt = None, timeoutArmed = False, attempted = [],
                   console = []\<rparr> in
         if \<not> port c then settle 0 s0
         else
           (let s1 = s0\<lparr>timeoutArmed := True, attempted := [command]\<rparr>;
                s2 = (case w of
                        WriteThrows \<Rightarrow> settle 0 (s1\<lparr>console := console s1 @ [ExceptionInSend]\<rparr>)
                      | _ \<Rightarrow> s1)
            in fold (handle_event command) (later_events w) s2)))"

definition updatePositionAfterMove :: "movement \<Rightarrow> RobotPosition \<Rightarrow> RobotPosition" where
  "updatePositionAfterMove m p =
     (case m of
        forward \<Rightarrow>
          (case direction p of
             north \<Rightarrow> p\<lparr>y := max 0 (y p - 1)\<rparr>
           | south \<Rightarrow> p\<lparr>y := min 4 (y p + 1)\<rparr>
           | east \<Rightarrow> p\<lparr>x := min 4 (x p + 1)\<rparr>
           | west \<Rightarrow> p\<lparr>x := max 0 (x p - 1)\<rparr>)
      | left \<Rightarrow>
          (case direction p of
             north \<Rightarrow> p\<lparr>direction := west\<rparr>
           | south \<Rightarrow> p\<lparr>direction := east\<rparr>
           | east \<Rightarrow> p\<lparr>direction := north\<rparr>
           | west \<Rightarrow> p\<lparr>direction := south\<rparr>)
      | right \<Rightarrow>
          (case direction p of
             north \<Rightarrow> p\<lparr>direction := east\<rparr>
           | south \<Rightarrow> p\<lparr>direction := west\<rparr>
           | east \<Rightarrow> p\<lparr>direction := south\<rparr>
           | west \<Rightarrow> p\<lparr>direction := north\<rparr>))"

text \<open>
  The controller's \<open>moveDistance\<close> and \<open>turnAngle\<close>: how the promise they return ends,
  what is left of the controller, the lines handed to the port and the console entries.
  Both await \<open>sendCommand\<close>: they go on after it resolved, throw where it rejected and
  stay suspended while it is pending.
\<close>

record call_result =
  promise_of :: promise
  controller :: ArduinoController
  lines :: "host_line list"
  entries :: "console_entry list"

definition host_moveDistance ::
  "ArduinoController \<Rightarrow> real \<Rightarrow> speed \<Rightarrow> write_behaviour \<Rightarrow> call_result" where
  "host_moveDistance c inches spd w =
     (if inches \<le> 0
      then \<lparr>promise_of = Resolved, controller = c, lines = [], entries = [InvalidDistance inches]\<rparr>
      else
        (let r = sendCommand c (MoveDistanceLine inches) w;
             actualSpeed = (if spd = fast then 4.0 else (if spd = normal then 3.0 else 2.5));
             expectedDuration = (inches / actualSpeed) * 1000
         in if outcome r = Resolved
            then \<lparr>promise_of = Resolved,
                  controller = c\<lparr>currentPosition := updatePositionAfterMove forward (currentPosition c)\<rparr>,
                  lines = attempted r,
                  entries = [MovingLog inches spd] @ console r
                            @ [ExpectedDuration expectedDuration, PositionUpdated]\<rparr>
            else \<lparr>promise_of = outcome r, controller = c, lines = attempted r,
                  entries = [MovingLog inches spd] @ console r\<rparr>))"

definition host_turnAngle ::
  "ArduinoController \<Rightarrow> real \<Rightarrow> speed \<Rightarrow> write_behaviour \<Rightarrow> call_result" where
  "host_turnAngle c degrees spd w =
     (if degrees = 0
      then \<lparr>promise_of = Resolved, controller = c, lines = [], entries = [NoTurnNeeded]\<rparr>
      else
        (let r = sendCommand c (TurnAngleLine degrees) w;
             actualTurnSpeed = (if spd = fast then 180.0 else (if spd = normal then 120.0 else 90.0));
             expectedDuration = (\<bar>degrees\<bar> / actualTurnSpeed) * 1000
         in if outcome r = Resolved
            then \<lparr>promise_of = Resolved,
                  controller = c\<lparr>currentPosition :=
                       updatePositionAfterMove (if degrees > 0 then right else left) (currentPosition c)\<rparr>,
                  lines = attempted r,
                  entries = [TurningLog degrees spd] @ console r
                            @ [ExpectedDuration expectedDuration, PositionUpdated]\<rparr>
            else \<lparr>promise_of = outcome r, controller = c, lines = attempted r,
                  entries = [TurningLog degrees spd] @ console r\<rparr>))"

text \<open>The controller's own \<open>calculateTurnAngle\<close>, over its array of the four directions.\<close>

definition host_directions :: "cardinal list" where
  "host_directions = [north, east, south, west]"

definition host_calculateTurnAngle :: "cardinal \<Rightarrow> cardinal \<Rightarrow> int" where
  "host_calculateTurnAngle current required =
     (let currentIndex = indexOf host_directions current;
          requiredIndex = indexOf host_directions required;
          turns = js_rem (requiredIndex - currentIndex + 4) 4
      in if turns = 1 then 90
         else if turns = 2 then 180
         else if turns = 3 then -90
         else 0)"

section \<open>Firmware (Arduino sketch)\<close>

text \<open>
  The sketch keeps its state in global variables; they are the fields of \<open>device\<close>, together
  with the two \<open>static\<close> locals, the output pins and the lines printed on \<open>Serial\<close> so far.
  \<open>unsigned long\<close> is 32 bits wide on the AVR and wraps around. \<open>float\<close> values are
  binary32 numbers and float arithmetic rounds to them; the conversion to
  \<open>unsigned long\<close> truncates.
\<close>

type_synonym ulong = "32 word"

text \<open>The lines the sketch prints, one constructor for each \<open>println\<close> of the source.\<close>

datatype status_detail = NoPrecision | PrecisionOnly | TargetInches real | TargetDegrees real

datatype serial =
    ObstacleLatchedMsg int int int
  | ObstacleClearedDebounced
  | OBSTACLE_DETECTED
  | OBSTACLE_CLEARED
  | Received string
  | UnknownCommand string
  | RobotStateReset
  | StatusMsg bool string status_detail
  | MotorsStopped
  | BLOCKED
  | MovingInches real ulong
  | TurningDegrees real ulong
  | MOVEMENT_PAUSED_OBSTACLE
  | MOVEMENT_RESUMED
  | GyroDebug int int int int int int
  | GyroReadFailed
  | DistanceMovementComplete real
  | AngleTurnComplete real
  | MOVEMENT_COMPLETE_SUCCESS
  | MovingForwardMsg
  | StoppingObstacle
  | ForwardComplete
  | TurningLeftMsg
  | LeftTurnComplete
  | TurningRightMsg
  | RightTurnComplete
  | TableLight int bool
  | UtsTestHeader
  | UtsReading int int
  | UtsTestResult bool
  | GyroTestHeader
  | GyroSample nat "(int \<times> int \<times> int) option"
  | GyroTestFooter
  | AdxlDetected
  | InitialReadings "(int \<times> int \<times> int) option"
  | ReadyBanner

record device =
  isMoving :: bool
  currentCommand :: string
  movementStartTime :: ulong
  targetDistance :: real
  targetAngle :: real
  isPrecisionMode :: bool
  pausedForObstacle :: bool
  pauseStartTime :: ulong
  totalPausedMs :: ulong
  obstacleHitCount :: int
  clearHitCount :: int
  obstacleLatched :: bool
  lastObstacle :: bool \<comment> \<open>\<open>static\<close> local of \<open>loop\<close>\<close>
  lastDebug :: ulong \<comment> \<open>\<open>static\<close> local of \<open>checkPrecisionMovement\<close>\<close>
  motorA1 :: bool
  motorB1 :: bool
  speedMotorAB :: int
  motora2 :: bool
  motorb2 :: bool
  speedMotorab :: int
  TABLE1_LED_PIN :: bool
  TABLE2_LED_PIN :: bool
  TABLE3_LED_PIN :: bool
  serialOut :: "serial list"

definition println :: "serial \<Rightarrow> device \<Rightarrow> device" where
  "println l st = st\<lparr>serialOut := serialOut st @ [l]\<rparr>"

subsection \<open>Single-precision arithmetic\<close>

text \<open>
  A \<open>float\<close> of the sketch is a binary32 number, carried here as the real number it
  denotes. The result of a float operation is the exact result rounded to the nearest
  binary32 number, ties to the even significand. \<open>float_exp v\<close> is the binary exponent of
  a positive \<open>v\<close> (the \<open>e\<close> with \<open>2^e \<le> v < 2^(e+1)\<close>), \<open>float_ulp v\<close> the distance between
  neighbouring binary32 numbers around \<open>v\<close> (24 significant bits, the exponent not below
  -126), and \<open>to_float v\<close> the rounded value. Overflow to infinity, above the largest
  binary32 number, is not modelled.
\<close>

function float_exp :: "real \<Rightarrow> int" where
  "float_exp v =
     (if v \<le> 0 then 0
      else if v < 1 then float_exp (2 * v) - 1
      else if 2 \<le> v then float_exp (v / 2) + 1
      else 0)"
  by pat_completeness auto
termination
proof (relation "measure (\<lambda>v. if 1 \<le> v then nat \<lfloor>v\<rfloor> else nat \<lceil>1 / v\<rceil>)")
  show "wf (measure (\<lambda>v::real. if 1 \<le> v then nat \<lfloor>v\<rfloor> else nat \<lceil>1 / v\<rceil>))"
    by simp
next
  fix v :: real
  assume a: "\<not> v \<le> 0" "v < 1"
  show "(2 * v, v) \<in> measure (\<lambda>v. if 1 \<le> v then nat \<lfloor>v\<rfloor> else nat \<lceil>1 / v\<rceil>)"
  proof (cases "1 \<le> 2 * v")
    case True
    have "\<lfloor>2 * v\<rfloor> = 1" using True a by linarith
    moreover have "1 / v > 1" using a by simp
    then have "\<lceil>1 / v\<rceil> \<ge> 2" by linarith
    ultimately show ?thesis using a True by simp
  next
    case False
    have pos: "0 < v" using a by simp
    have y: "1 / v > 2" using False pos by (simp add: field_simps)
    have "\<lceil>(1 / v) / 2\<rceil> < \<lceil>1 / v\<rceil>"
    proof -
      have "(1 / v) / 2 \<le> of_int \<lceil>1 / v\<rceil> / 2" by simp
      moreover have "of_int \<lceil>1 / v\<rceil> / 2 \<le> real_of_int (\<lceil>1 / v\<rceil> - 1)"
      proof -
        have "\<lceil>1 / v\<rceil> \<ge> 3" using y by linarith
        then have "real_of_int \<lceil>1 / v\<rceil> \<ge> 3" by linarith
        then show ?thesis by simp
      qed
      ultimately have "(1 / v) / 2 \<le> real_of_int (\<lceil>1 / v\<rceil> - 1)" by linarith
      then have "\<lceil>(1 / v) / 2\<rceil> \<le> \<lceil>1 / v\<rceil> - 1" by (simp only: ceiling_le_iff)
      then show ?thesis by linarith
    qed
    moreover have "\<lceil>1 / v\<rceil> > 0" using y by linarith
    ultimately show ?thesis using a False by (simp add: field_simps)
  qed
next
  fix v :: real
  assume a: "\<not> v \<le> 0" "\<not> v < 1" "2 \<le> v"
  have "\<lfloor>v / 2\<rfloor> < \<lfloor>v\<rfloor>"
  proof -
    have two: "\<lfloor>v\<rfloor> \<ge> 2" using a by linarith
    have "v / 2 < real_of_int \<lfloor>v\<rfloor>"
    proof -
      have "v < real_of_int \<lfloor>v\<rfloor> + 1" by linarith
      moreover have "real_of_int \<lfloor>v\<rfloor> \<ge> 2" using two by linarith
      ultimately show ?thesis by linarith
    qed
    then show ?thesis by (simp add: floor_less_iff)
  qed
  moreover have "\<lfloor>v\<rfloor> > 0" using a by linarith
  ultimately show "(v / 2, v) \<in> measure (\<lambda>v. if 1 \<le> v then nat \<lfloor>v\<rfloor> else nat \<lceil>1 / v\<rceil>)"
    using a by simp
qed

declare float_exp.simps [simp del]

definition round_even :: "real \<Rightarrow> int" where
  "round_even m =
     (let f = \<lfloor>m\<rfloor> in
      if m - of_int f < 1 / 2 then f
      else if m - of_int f > 1 / 2 then f + 1
      else if even f then f else f + 1)"

definition float_ulp :: "real \<Rightarrow> real" where
  "float_ulp v = 2 powi (max (- 126) (float_exp \<bar>v\<bar>) - 23)"

definition to_float :: "real \<Rightarrow> real" where
  "to_float v = of_int (round_even (v / float_ulp v)) * float_ulp v"

text \<open>Product and quotient of two floats, as the sketch computes them.\<close>

definition float_mul :: "real \<Rightarrow> real \<Rightarrow> real" where
  "float_mul a b = to_float (a * b)"

definition float_div :: "real \<Rightarrow> real \<Rightarrow> real" where
  "float_div a b = to_float (a / b)"

subsection \<open>Constants\<close>

text \<open>
  \<open>MS_PER_INCH\<close> and \<open>DEGREES_PER_MS\<close> are quotients stored in a \<open>float\<close>, so they hold
  the rounded quotient. The two distances in centimetres are kept as the decimal numbers
  the source writes; they are only compared with whole centimetres.
\<close>

definition precisionSpeed :: int where "precisionSpeed = 150"
definition turnSpeed :: int where "turnSpeed = 120"
definition baseLeft :: int where "baseLeft = 180"
definition baseRight :: int where "baseRight = 180"
definition normalX :: int where "normalX = 13"
definition normalY :: int where "normalY = 172"
definition tolerance :: int where "tolerance = 4"
definition UTS_ENABLED :: bool where "UTS_ENABLED = True"
definition OBSTACLE_DISTANCE_CM :: real where "OBSTACLE_DISTANCE_CM = 20.32"
definition CLEAR_HYSTERESIS_CM :: real where "CLEAR_HYSTERESIS_CM = 5.0"
definition REQUIRED_CONSECUTIVE_HITS :: int where "REQUIRED_CONSECUTIVE_HITS = 3"
definition INCHES_PER_SECOND :: real where "INCHES_PER_SECOND = 3.0"
definition MS_PER_INCH :: real where "MS_PER_INCH = to_float (1000.0 / INCHES_PER_SECOND)"
definition DEGREES_PER_MS :: real where "DEGREES_PER_MS = to_float (90.0 / 500.0)"

text \<open>
  The cast \<open>(unsigned long)\<close> of a \<open>float\<close>: the fraction is dropped. C leaves the cast
  of a negative or too large value undefined; here it wraps around.
\<close>

definition to_ulong :: "real \<Rightarrow> ulong" where
  "to_ulong v = word_of_int (if v \<ge> 0 then \<lfloor>v\<rfloor> else - \<lfloor>- v\<rfloor>)"

text \<open>Arduino's \<open>constrain(v, lo, hi)\<close>.\<close>

definition constrain :: "int \<Rightarrow> int \<Rightarrow> int \<Rightarrow> int" where
  "constrain v lo hi = (if v < lo then lo else if v > hi then hi else v)"

subsection \<open>Obstacle monitor\<close>

text \<open>
  \<open>checkForObstacles\<close> reads the three sensors, each as a median of five pulses; the three
  medians (in cm, of type \<open>long\<close>) are the input here. Its return value is the field
  \<open>obstacleLatched\<close> of the state it leaves.
\<close>

type_synonym distances = "int \<times> int \<times> int"

definition anyBelow :: "distances \<Rightarrow> bool" where
  "anyBelow d = (case d of (distance1, distance2, distance3) \<Rightarrow>
     real_of_int distance1 < OBSTACLE_DISTANCE_CM \<or> real_of_int distance2 < OBSTACLE_DISTANCE_CM
     \<or> real_of_int distance3 < OBSTACLE_DISTANCE_CM)"

definition allClearWithMargin :: "distances \<Rightarrow> bool" where
  "allClearWithMargin d = (case d of (distance1, distance2, distance3) \<Rightarrow>
     real_of_int distance1 > OBSTACLE_DISTANCE_CM + CLEAR_HYSTERESIS_CM
     \<and> real_of_int distance2 > OBSTACLE_DISTANCE_CM + CLEAR_HYSTERESIS_CM
     \<and> real_of_int distance3 > OBSTACLE_DISTANCE_CM + CLEAR_HYSTERESIS_CM)"

definition checkForObstacles :: "distances \<Rightarrow> device \<Rightarrow> device" where
  "checkForObstacles d st =
     (let st1 = (if anyBelow d
                 then st\<lparr>obstacleHitCount := min (obstacleHitCount st + 1) REQUIRED_CONSECUTIVE_HITS,
                         clearHitCount := 0\<rparr>
                 else if allClearWithMargin d
                 then st\<lparr>clearHitCount := min (clearHitCount st + 1) REQUIRED_CONSECUTIVE_HITS,
                         obstacleHitCount := 0\<rparr>
                 else st);
          st2 = (if \<not> obstacleLatched st1 \<and> obstacleHitCount st1 \<ge> REQUIRED_CONSECUTIVE_HITS
                 then println (case d of (distance1, distance2, distance3) \<Rightarrow>
                                 ObstacleLatchedMsg distance1 distance2 distance3)
                        (st1\<lparr>obstacleLatched := True\<rparr>)
                 else st1)
      in if obstacleLatched st2 \<and> clearHitCount st2 \<ge> REQUIRED_CONSECUTIVE_HITS
         then println ObstacleClearedDebounced (st2\<lparr>obstacleLatched := False\<rparr>)
         else st2)"

subsection \<open>Motors and the precision commands\<close>

definition stopMotors :: "device \<Rightarrow> device" where
  "stopMotors st =
     println MotorsStopped
       (st\<lparr>isMoving := False, currentCommand := ''STOP'',
           motorA1 := False, motorB1 := False, speedMotorAB := 0,
           motora2 := False, motorb2 := False, speedMotorab := 0\<rparr>)"

text \<open>\<open>moveDistance\<close> and \<open>turnAngle\<close> read the clock once; \<open>now\<close> is what \<open>millis()\<close> gives.\<close>

definition moveDistance :: "ulong \<Rightarrow> real \<Rightarrow> device \<Rightarrow> device" where
  "moveDistance now inches st =
     (if isMoving st then println BLOCKED st
      else
        (let st1 = st\<lparr>isMoving := True, isPrecisionMode := True,
                       currentCommand := ''MOVE_DISTANCE'', targetDistance := inches,
                       movementStartTime := now, pausedForObstacle := False,
                       totalPausedMs := 0\<rparr>;
             movementTime = to_ulong (float_mul inches MS_PER_INCH)
         in println (MovingInches inches movementTime) st1))"

definition turnAngle :: "ulong \<Rightarrow> real \<Rightarrow> device \<Rightarrow> device" where
  "turnAngle now degrees st =
     (if isMoving st then println BLOCKED st
      else
        (let st1 = st\<lparr>isMoving := True, isPrecisionMode := True,
                       currentCommand := ''TURN_ANGLE'', targetAngle := degrees,
                       movementStartTime := now\<rparr>;
             turnTime = to_ulong (float_div \<bar>degrees\<bar> DEGREES_PER_MS);
             st2 = println (TurningDegrees degrees turnTime) st1
         in if degrees > 0
            then st2\<lparr>motorA1 := True, motorB1 := False, speedMotorAB := turnSpeed,
                     motora2 := False, motorb2 := True, speedMotorab := turnSpeed\<rparr>
            else st2\<lparr>motorA1 := False, motorB1 := True, speedMotorAB := turnSpeed,
                     motora2 := True, motorb2 := False, speedMotorab := turnSpeed\<rparr>))"

text \<open>
  The motor speeds from one reading of the accelerometer: the tilt correction on the X
  axis, the damping on the Y axis and the safe range. \<open>moveForward\<close> and
  \<open>checkPrecisionMovement\<close> hold the same code with different base speeds and bounds,
  which are the first four arguments.
\<close>

definition gyroSpeeds ::
  "int \<Rightarrow> int \<Rightarrow> int \<Rightarrow> int \<Rightarrow> int \<Rightarrow> int \<Rightarrow> int \<Rightarrow> int \<times> int" where
  "gyroSpeeds baseL baseR tiltMax dampMax ax ay az =
     (let deltaX = ax - normalX;
          deltaY = ay - normalY;
          leftSpeed = baseL;
          rightSpeed = baseR;
          rightSpeed = (if deltaX > tolerance
                        then rightSpeed + constrain (\<bar>deltaX\<bar> div 4) 0 tiltMax else rightSpeed);
          leftSpeed = (if \<not> deltaX > tolerance \<and> deltaX < - tolerance
                       then leftSpeed + constrain (\<bar>deltaX\<bar> div 4) 0 tiltMax else leftSpeed);
          adjust = (if \<bar>deltaY\<bar> > tolerance then constrain (\<bar>deltaY\<bar> div 10) 0 dampMax else 0);
          leftSpeed = leftSpeed - adjust;
          rightSpeed = rightSpeed - adjust
      in (constrain leftSpeed 100 255, constrain rightSpeed 100 255))"

definition driveForward :: "int \<Rightarrow> int \<Rightarrow> device \<Rightarrow> device" where
  "driveForward leftSpeed rightSpeed st =
     st\<lparr>motorA1 := True, motorB1 := False, speedMotorAB := leftSpeed,
        motora2 := True, motorb2 := False, speedMotorab := rightSpeed\<rparr>"

text \<open>
  What one call of \<open>checkPrecisionMovement\<close> reads: the clock, the sensors (read only
  during a distance move) and the accelerometer (read only while not paused; \<open>None\<close> is a
  failed read).
\<close>

record check_env =
  currentTime :: ulong
  check_distances :: distances
  check_accel :: "(int \<times> int \<times> int) option"

definition gyroDrive :: "check_env \<Rightarrow> device \<Rightarrow> device" where
  "gyroDrive e st =
     (case check_accel e of
        Some (ax, ay, az) \<Rightarrow>
          (let (leftSpeed, rightSpeed) = gyroSpeeds precisionSpeed precisionSpeed 30 10 ax ay az;
               st1 = (if currentTime e - lastDebug st > 200
                      then (println (GyroDebug ax ay (ax - normalX) (ay - normalY) leftSpeed rightSpeed) st)
                             \<lparr>lastDebug := currentTime e\<rparr>
                      else st)
           in driveForward leftSpeed rightSpeed st1)
      | None \<Rightarrow> driveForward precisionSpeed precisionSpeed (println GyroReadFailed st))"

definition checkPrecisionMovement :: "check_env \<Rightarrow> device \<Rightarrow> device" where
  "checkPrecisionMovement e st =
     (let effectiveElapsed = currentTime e - movementStartTime st - totalPausedMs st in
      if currentCommand st = ''MOVE_DISTANCE'' then
        (let st1 = (if UTS_ENABLED then checkForObstacles (check_distances e) st else st);
             obstacle = (UTS_ENABLED \<and> obstacleLatched st1);
             st2 = (if obstacle
                    then (if \<not> pausedForObstacle st1
                          then println MOVEMENT_PAUSED_OBSTACLE
                                 ((stopMotors st1)\<lparr>pausedForObstacle := True,
                                                   pauseStartTime := currentTime e\<rparr>)
                          else st1)
                    else
                      (let st1a = (if pausedForObstacle st1
                                   then println MOVEMENT_RESUMED
                                          (st1\<lparr>totalPausedMs := totalPausedMs st1
                                                     + (currentTime e - pauseStartTime st1),
                                               pausedForObstacle := False\<rparr>)
                                   else st1)
                       in if \<not> pausedForObstacle st1a then gyroDrive e st1a else st1a));
             targetTime = to_ulong (float_mul (targetDistance st2) MS_PER_INCH);
             shouldStop = (\<not> pausedForObstacle st2 \<and> effectiveElapsed \<ge> targetTime);
             st3 = (if shouldStop
                    then println MOVEMENT_COMPLETE_SUCCESS
                           (println (DistanceMovementComplete (targetDistance st2)) st2)
                    else st2)
         in if shouldStop then (stopMotors st3)\<lparr>isPrecisionMode := False\<rparr> else st3)
      else if currentCommand st = ''TURN_ANGLE'' then
        (let targetTime = to_ulong (float_div \<bar>targetAngle st\<bar> DEGREES_PER_MS)
         in if effectiveElapsed \<ge> targetTime
            then (stopMotors
                    (println MOVEMENT_COMPLETE_SUCCESS
                       (println (AngleTurnComplete (targetAngle st)) st)))\<lparr>isPrecisionMode := False\<rparr>
            else st)
      else st)"

subsection \<open>Legacy commands, tests and table lights\<close>

text \<open>
  \<open>moveForward\<close> blocks in a loop for \<open>forwardTime\<close> milliseconds. Each turn of the loop
  reads the sensors, the accelerometer and the clock; the list holds the readings of the
  turns for which the loop condition held, so that the loop ends with the list unless an
  obstacle ends it before. The second component is the local \<open>lastDebug\<close>.
\<close>

record forward_iter =
  fw_distances :: distances
  fw_accel :: "(int \<times> int \<times> int) option"
  fw_now :: ulong

fun moveForward_loop :: "forward_iter list \<Rightarrow> ulong \<Rightarrow> device \<Rightarrow> device" where
  "moveForward_loop [] lastDbg st =
     println ForwardComplete ((stopMotors st)\<lparr>isMoving := False\<rparr>)"
| "moveForward_loop (it # its) lastDbg st =
     (let st1 = (if UTS_ENABLED then checkForObstacles (fw_distances it) st else st) in
      if UTS_ENABLED \<and> obstacleLatched st1
      then (stopMotors (println StoppingObstacle st1))\<lparr>isMoving := False\<rparr>
      else
        (case fw_accel it of
           Some (ax, ay, az) \<Rightarrow>
             (let (leftSpeed, rightSpeed) = gyroSpeeds baseLeft baseRight 25 8 ax ay az;
                  dbg = (fw_now it - lastDbg > 200);
                  st2 = (if dbg
                         then println (GyroDebug ax ay (ax - normalX) (ay - normalY) leftSpeed rightSpeed) st1
                         else st1)
              in moveForward_loop its (if dbg then fw_now it else lastDbg)
                   (driveForward leftSpeed rightSpeed st2))
         | None \<Rightarrow>
             moveForward_loop its lastDbg (driveForward baseLeft baseRight (println GyroReadFailed st1))))"

definition moveForward :: "forward_iter list \<Rightarrow> device \<Rightarrow> device" where
  "moveForward its st =
     (if isMoving st then println BLOCKED st
      else moveForward_loop its 0
             (println MovingForwardMsg (st\<lparr>isMoving := True, currentCommand := ''FORWARD''\<rparr>)))"

definition turnLeft :: "device \<Rightarrow> device" where
  "turnLeft st =
     (if isMoving st then println BLOCKED st
      else
        (let st1 = st\<lparr>isMoving := True, currentCommand := ''LEFT'',
                       motorA1 := False, motorB1 := True, speedMotorAB := turnSpeed,
                       motora2 := True, motorb2 := False, speedMotorab := turnSpeed\<rparr>
         in println LeftTurnComplete ((stopMotors (println TurningLeftMsg st1))\<lparr>isMoving := False\<rparr>)))"

definition turnRight :: "device \<Rightarrow> device" where
  "turnRight st =
     (if isMoving st then println BLOCKED st
      else
        (let st1 = st\<lparr>isMoving := True, currentCommand := ''RIGHT'',
                       motorA1 := True, motorB1 := False, speedMotorAB := turnSpeed,
                       motora2 := False, motorb2 := True, speedMotorab := turnSpeed\<rparr>
         in println RightTurnComplete ((stopMotors (println TurningRightMsg st1))\<lparr>isMoving := False\<rparr>)))"

text \<open>
  \<open>testUltrasonicSensors\<close> prints one raw reading of each sensor and then runs
  \<open>checkForObstacles\<close> on fresh medians; \<open>testGyroSensor\<close> prints ten readings.
\<close>

definition testUltrasonicSensors :: "distances \<Rightarrow> distances \<Rightarrow> device \<Rightarrow> device" where
  "testUltrasonicSensors raw d st =
     (case raw of (distance1, distance2, distance3) \<Rightarrow>
        (let st1 = println (UtsReading 3 distance3)
                     (println (UtsReading 2 distance2)
                        (println (UtsReading 1 distance1) (println UtsTestHeader st)));
             st2 = checkForObstacles d st1
         in println (UtsTestResult (obstacleLatched st2)) st2))"

definition testGyroSensor :: "(nat \<Rightarrow> (int \<times> int \<times> int) option) \<Rightarrow> device \<Rightarrow> device" where
  "testGyroSensor samples st =
     println GyroTestFooter
       (fold (\<lambda>i. println (GyroSample (i + 1) (samples i))) [0..<10] (println GyroTestHeader st))"

definition tableArrived :: "int \<Rightarrow> device \<Rightarrow> device" where
  "tableArrived tableNumber st =
     (if tableNumber = 1 then println (TableLight tableNumber True) (st\<lparr>TABLE1_LED_PIN := True\<rparr>)
      else if tableNumber = 2 then println (TableLight tableNumber True) (st\<lparr>TABLE2_LED_PIN := True\<rparr>)
      else if tableNumber = 3 then println (TableLight tableNumber True) (st\<lparr>TABLE3_LED_PIN := True\<rparr>)
      else st)"

definition tableReceived :: "int \<Rightarrow> device \<Rightarrow> device" where
  "tableReceived tableNumber st =
     (if tableNumber = 1 then println (TableLight tableNumber False) (st\<lparr>TABLE1_LED_PIN := False\<rparr>)
      else if tableNumber = 2 then println (TableLight tableNumber False) (st\<lparr>TABLE2_LED_PIN := False\<rparr>)
      else if tableNumber = 3 then println (TableLight tableNumber False) (st\<lparr>TABLE3_LED_PIN := False\<rparr>)
      else st)"

definition getStatus :: "device \<Rightarrow> serial" where
  "getStatus st =
     StatusMsg (isMoving st) (currentCommand st)
       (if isPrecisionMode st
        then (if currentCommand st = ''MOVE_DISTANCE'' then TargetInches (targetDistance st)
              else if currentCommand st = ''TURN_ANGLE'' then TargetDegrees (targetAngle st)
              else PrecisionOnly)
        else NoPrecision)"

subsection \<open>The command line and the main loop\<close>

text \<open>
  \<open>String::trim\<close> drops the characters for which \<open>isspace\<close> holds from both ends, and
  \<open>String::toUpperCase\<close> maps \<open>toupper\<close> over the characters.
\<close>

definition isspace :: "char \<Rightarrow> bool" where
  "isspace c = (c \<in> set [CHR '' '', CHR 0x09, CHR 0x0A, CHR 0x0B, CHR 0x0C, CHR 0x0D])"

definition toupper :: "char \<Rightarrow> char" where
  "toupper c =
     (case map_of (zip ''abcdefghijklmnopqrstuvwxyz'' ''ABCDEFGHIJKLMNOPQRSTUVWXYZ'') c of
        Some u \<Rightarrow> u
      | None \<Rightarrow> c)"

definition trim :: "string \<Rightarrow> string" where
  "trim s = rev (dropWhile isspace (rev (dropWhile isspace s)))"

definition toUpperCase :: "string \<Rightarrow> string" where
  "toUpperCase s = map toupper s"

definition startsWith :: "string \<Rightarrow> string \<Rightarrow> bool" where
  "startsWith s p = (take (length p) s = p)"

definition substring :: "string \<Rightarrow> nat \<Rightarrow> string" where
  "substring s n = drop n s"

text \<open>
  Everything one pass of \<open>loop\<close> reads from outside: the sensors at the top of the loop, the
  line waiting on \<open>Serial\<close> (\<open>None\<close> when nothing is available), the clock and the readings
  the command of that line needs, and the readings of \<open>checkPrecisionMovement\<close>.
\<close>

record tick_env =
  top_distances :: distances
  serial_line :: "string option"
  cmd_millis :: ulong
  forward_iters :: "forward_iter list"
  test_raw :: distances
  test_distances :: distances
  test_accels :: "nat \<Rightarrow> (int \<times> int \<times> int) option"
  check :: check_env

text \<open>
  The chain of comparisons on the trimmed, upper-cased line. \<open>toFloat\<close> is
  \<open>String::toFloat\<close> of the Arduino core, a parameter here; it gives a \<open>float\<close>.
\<close>

definition dispatch :: "(string \<Rightarrow> real) \<Rightarrow> tick_env \<Rightarrow> string \<Rightarrow> device \<Rightarrow> device" where
  "dispatch toFloat e command st =
     (if startsWith command ''MOVE_DISTANCE:''
      then moveDistance (cmd_millis e) (toFloat (substring command 14)) st
      else if startsWith command ''TURN_ANGLE:''
      then turnAngle (cmd_millis e) (toFloat (substring command 11)) st
      else if command = ''FORWARD'' then moveForward (forward_iters e) st
      else if command = ''LEFT'' then turnLeft st
      else if command = ''RIGHT'' then turnRight st
      else if command = ''STOP'' then stopMotors st
      else if command = ''TEST_UTS'' then testUltrasonicSensors (test_raw e) (test_distances e) st
      else if command = ''TEST_GYRO'' then testGyroSensor (test_accels e) st
      else if command = ''TABLE1_ARRIVED'' then tableArrived 1 st
      else if command = ''TABLE1_RECEIVED'' then tableReceived 1 st
      else if command = ''TABLE2_ARRIVED'' then tableArrived 2 st
      else if command = ''TABLE2_RECEIVED'' then tableReceived 2 st
      else if command = ''TABLE3_ARRIVED'' then tableArrived 3 st
      else if command = ''TABLE3_RECEIVED'' then tableReceived 3 st
      else if command = ''STATUS'' then println (getStatus st) st
      else if command = ''RESET''
      then println RobotStateReset
             ((stopMotors st)\<lparr>isMoving := False, isPrecisionMode := False,
                               pausedForObstacle := False, currentCommand := ''STOP''\<rparr>)
      else println (UnknownCommand command) st)"

text \<open>The handling of one received line: trim, upper-case, echo, dispatch.\<close>

definition processLine :: "(string \<Rightarrow> real) \<Rightarrow> tick_env \<Rightarrow> string \<Rightarrow> device \<Rightarrow> device" where
  "processLine toFloat e received st =
     (let command = toUpperCase (trim received)
      in dispatch toFloat e command (println (Received command) st))"

definition publishObstacle :: "distances \<Rightarrow> device \<Rightarrow> device" where
  "publishObstacle d st =
     (let st1 = checkForObstacles d st;
          obstacleNow = obstacleLatched st1
      in if obstacleNow \<noteq> lastObstacle st1
         then (println (if obstacleNow then OBSTACLE_DETECTED else OBSTACLE_CLEARED) st1)
                \<lparr>lastObstacle := obstacleNow\<rparr>
         else st1)"

definition loop :: "(string \<Rightarrow> real) \<Rightarrow> tick_env \<Rightarrow> device \<Rightarrow> device" where
  "loop toFloat e st =
     (let st1 = (if UTS_ENABLED then publishObstacle (top_distances e) st else st);
          st2 = (case serial_line e of
                   Some received \<Rightarrow> processLine toFloat e received st1
                 | None \<Rightarrow> st1)
      in if isMoving st2 \<and> isPrecisionMode st2 then checkPrecisionMovement (check e) st2 else st2)"

text \<open>Passes of the loop one after the other, each with its own readings.\<close>

fun loops :: "(string \<Rightarrow> real) \<Rightarrow> tick_env list \<Rightarrow> device \<Rightarrow> device" where
  "loops toFloat [] st = st"
| "loops toFloat (e # es) st = loops toFloat es (loop toFloat e st)"

text \<open>
  The globals as their initialisers leave them, and the sketch's \<open>setup()\<close>: without the accelerometer it
  never returns (\<open>None\<close>); with it, it prints its banner and stops the motors.
\<close>

definition power_on :: device where
  "power_on =
     \<lparr>isMoving = False, currentCommand = [], movementStartTime = 0, targetDistance = 0,
      targetAngle = 0, isPrecisionMode = False, pausedForObstacle = False, pauseStartTime = 0,
      totalPausedMs = 0, obstacleHitCount = 0, clearHitCount = 0, obstacleLatched = False,
      lastObstacle = False, lastDebug = 0,
      motorA1 = False, motorB1 = False, speedMotorAB = 0,
      motora2 = False, motorb2 = False, speedMotorab = 0,
      TABLE1_LED_PIN = False, TABLE2_LED_PIN = False, TABLE3_LED_PIN = False,
      serialOut = []\<rparr>"

definition sketch_setup :: "bool \<Rightarrow> (int \<times> int \<times> int) option \<Rightarrow> device option" where
  "sketch_setup adxlDetected firstRead =
     (if \<not> adxlDetected then None
      else Some (println ReadyBanner
                   ((stopMotors (println (InitialReadings firstRead) (println AdxlDetected power_on)))
                      \<lparr>isMoving := False\<rparr>)))"


section \<open>Notions used in the statements\<close>

text \<open>
  A U-turn pair, in the words of the specification: two facings that are two places apart
  in the cardinal order.
\<close>

definition opposite_facings :: "direction \<Rightarrow> direction \<Rightarrow> bool" where
  "opposite_facings a b = (\<bar>indexOf directions b - indexOf directions a\<bar> = 2)"

definition opposite_cardinals :: "cardinal \<Rightarrow> cardinal \<Rightarrow> bool" where
  "opposite_cardinals a b = (\<bar>indexOf host_directions b - indexOf host_directions a\<bar> = 2)"

text \<open>The path of the end-to-end scenario.\<close>

definition scenario_path :: "Position list" where
  "scenario_path = [\<lparr>x = 2, y = 4\<rparr>, \<lparr>x = 2, y = 3\<rparr>, \<lparr>x = 3, y = 3\<rparr>]"

text \<open>A controller with an open port, for the concrete instances.\<close>

definition connected_controller :: ArduinoController where
  "connected_controller =
     \<lparr>port = True, isConnected = True, currentPosition = \<lparr>x = 2, y = 4, direction = north\<rparr>\<rparr>"

text \<open>The lines the chain of comparisons in \<open>loop\<close> knows, once trimmed and upper-cased.\<close>

definition known_command :: "string \<Rightarrow> bool" where
  "known_command command =
     (startsWith command ''MOVE_DISTANCE:'' \<or> startsWith command ''TURN_ANGLE:''
      \<or> command \<in> set [''FORWARD'', ''LEFT'', ''RIGHT'', ''STOP'', ''TEST_UTS'', ''TEST_GYRO'',
            ''TABLE1_ARRIVED'', ''TABLE1_RECEIVED'', ''TABLE2_ARRIVED'', ''TABLE2_RECEIVED'',
            ''TABLE3_ARRIVED'', ''TABLE3_RECEIVED'', ''STATUS'', ''RESET''])"

text \<open>
  Readings for the concrete instances: all sensors far away, a level accelerometer, and
  nothing waiting on \<open>Serial\<close>; \<open>tick t first chk\<close> is a pass of the loop at clock \<open>t\<close> with
  the sensor medians \<open>first\<close> at the top of the loop and \<open>chk\<close> in \<open>checkPrecisionMovement\<close>.
\<close>

definition far :: distances where
  "far = (100, 100, 100)"

definition near :: distances where
  "near = (10, 100, 100)"

definition quiet_env :: tick_env where
  "quiet_env =
     \<lparr>top_distances = far, serial_line = None, cmd_millis = 0, forward_iters = [],
      test_raw = far, test_distances = far, test_accels = (\<lambda>i. None),
      check = \<lparr>currentTime = 0, check_distances = far, check_accel = Some (13, 172, 0)\<rparr>\<rparr>"

definition tick :: "ulong \<Rightarrow> distances \<Rightarrow> distances \<Rightarrow> tick_env" where
  "tick t first chk =
     quiet_env\<lparr>top_distances := first, cmd_millis := t,
               check := \<lparr>currentTime = t, check_distances = chk, check_accel = Some (13, 172, 0)\<rparr>\<rparr>"

text \<open>The sketch after a \<open>setup()\<close> that found the accelerometer.\<close>

definition booted :: device where
  "booted = (case sketch_setup True None of Some st \<Rightarrow> st | None \<Rightarrow> power_on)"

text \<open>The lines printed between two states of the sketch.\<close>

definition emitted :: "device \<Rightarrow> device \<Rightarrow> serial list" where
  "emitted st st' = drop (length (serialOut st)) (serialOut st')"

text \<open>
  Sampling cycles one after the other: each is one call of \<open>checkForObstacles\<close>, wherever
  in the sketch it is made. A cycle is decisive when it is a hit (some sensor below the
  trigger distance) or a clear (all sensors above trigger plus margin); the other cycles
  lie in the hysteresis band. \<open>trailing P ds\<close> counts the decisive cycles at the end of
  \<open>ds\<close> that all satisfy \<open>P\<close>.
\<close>

fun sampleCycles :: "distances list \<Rightarrow> device \<Rightarrow> device" where
  "sampleCycles [] st = st"
| "sampleCycles (d # ds) st = sampleCycles ds (checkForObstacles d st)"

definition decisive :: "distances list \<Rightarrow> distances list" where
  "decisive ds = filter (\<lambda>d. anyBelow d \<or> allClearWithMargin d) ds"

definition trailing :: "(distances \<Rightarrow> bool) \<Rightarrow> distances list \<Rightarrow> int" where
  "trailing P ds = int (length (takeWhile P (rev (decisive ds))))"

definition in_band :: distances where
  "in_band = (22, 100, 100)"

text \<open>
  The number of MOVEMENT_COMPLETE:SUCCESS lines printed so far, the state of a sketch that
  is executing \<open>TURN_ANGLE\<close> started at clock \<open>t0\<close>, the duration the sketch computes for
  a turn, and the state of the pause accounting outside a paused distance move.
\<close>

definition completions :: "device \<Rightarrow> nat" where
  "completions st = length (filter (\<lambda>l. l = MOVEMENT_COMPLETE_SUCCESS) (serialOut st))"

definition turning :: "ulong \<Rightarrow> real \<Rightarrow> device \<Rightarrow> bool" where
  "turning t0 degrees st =
     (isMoving st \<and> isPrecisionMode st \<and> currentCommand st = ''TURN_ANGLE''
      \<and> movementStartTime st = t0 \<and> targetAngle st = degrees \<and> totalPausedMs st = 0)"


definition move_time :: "real \<Rightarrow> ulong" where
  "move_time inches = to_ulong (float_mul inches MS_PER_INCH)"

definition pause_idle :: "device \<Rightarrow> bool" where
  "pause_idle st =
     (totalPausedMs st = 0 \<and> \<not> (pausedForObstacle st \<and> currentCommand st = ''MOVE_DISTANCE''))"


definition moving_distance :: "ulong \<Rightarrow> real \<Rightarrow> device \<Rightarrow> bool" where
  "moving_distance t0 inches st =
     (isMoving st \<and> isPrecisionMode st \<and> currentCommand st = ''MOVE_DISTANCE''
      \<and> movementStartTime st = t0 \<and> targetDistance st = inches \<and> totalPausedMs st = 0
      \<and> \<not> pausedForObstacle st)"

definition obstacle_scenario :: "tick_env list" where
  "obstacle_scenario =
     [(tick 0 far far)\<lparr>serial_line := Some ''MOVE_DISTANCE:24''\<rparr>,
      tick 1000 near near, tick 2000 near far, tick 3000 far far, tick 4000 far far,
      tick 9000 far far, tick 20000 far far]"

definition after_pause :: device where
  "after_pause = loops (\<lambda>s. 24) obstacle_scenario booted"


section \<open>Properties of the planner\<close>

lemmas planner_defs =
  calculateTurnAngle_def getNewDirection_def directions_def js_rem_def Let_def

text \<open>
  Claim C1, as stated, asks for every turn angle of the planner to lie in
  \<open>{-180, -90, 0, 90}\<close>. From "up" to "down" the planner computes +180, which is not in
  that set.
\<close>

theorem turn_angle_up_down_outside_claimed_set:
  "calculateTurnAngle Up Down \<notin> {-180, -90, 0, 90}"
  by (simp add: planner_defs)

text \<open>
  Claim C1, amended: for every pair of facings the planner's turn angle lies in
  \<open>{-180, -90, 0, 90, 180}\<close> (the code normalises the steps to the range -2 .. +2, both ends
  included), and applying that angle to the current facing with \<open>getNewDirection\<close> gives
  exactly the target facing.
\<close>

theorem turn_angle_range_and_effect:
  "calculateTurnAngle currentDir targetDir \<in> {-180, -90, 0, 90, 180}
   \<and> getNewDirection currentDir (calculateTurnAngle currentDir targetDir) = Some targetDir"
  by (cases currentDir; cases targetDir; simp add: planner_defs)

text \<open>
  Claim C5, as stated, asks for +180 for both orders of a U-turn pair. From "down" to "up"
  the planner computes -180.
\<close>

theorem u_turn_down_up_is_minus_180:
  "opposite_facings Down Up \<and> calculateTurnAngle Down Up \<noteq> 180"
  by (simp add: planner_defs opposite_facings_def)

text \<open>
  Claim C5, amended: for a U-turn pair the planner computes one turn of 180 degrees whose
  sign follows the order of the pair, +180 when the target comes later in
  [up, right, down, left] and -180 when it comes earlier, and the segment issues it as a
  single turn command before the move, never as two turns of 90. The controller's own
  \<open>calculateTurnAngle\<close> gives +180 for both orders.
\<close>

theorem u_turn_is_single_signed_180:
  "(opposite_facings currentDir targetDir \<longrightarrow>
      calculateTurnAngle currentDir targetDir =
        (if indexOf directions currentDir < indexOf directions targetDir then 180 else -180)
      \<and> segmentCalls True (calculateTurnAngle currentDir targetDir) =
          [TurnAngleCall (calculateTurnAngle currentDir targetDir), MoveDistanceCall 24 normal])
   \<and> (opposite_cardinals current required \<longrightarrow>
        host_calculateTurnAngle current required = 180)"
proof
  show "opposite_facings currentDir targetDir \<longrightarrow>
      calculateTurnAngle currentDir targetDir =
        (if indexOf directions currentDir < indexOf directions targetDir then 180 else -180)
      \<and> segmentCalls True (calculateTurnAngle currentDir targetDir) =
          [TurnAngleCall (calculateTurnAngle currentDir targetDir), MoveDistanceCall 24 normal]"
    by (cases currentDir; cases targetDir;
        simp add: planner_defs opposite_facings_def segmentCalls_def)
  show "opposite_cardinals current required \<longrightarrow>
        host_calculateTurnAngle current required = 180"
    by (cases current; cases required;
        simp add: host_calculateTurnAngle_def host_directions_def opposite_cardinals_def
                  js_rem_def Let_def)
qed

theorem u_turn_is_single_signed_180_witness:
  "opposite_facings Left Right \<and> calculateTurnAngle Left Right = -180
   \<and> segmentCalls True (calculateTurnAngle Left Right) =
       [TurnAngleCall (calculateTurnAngle Left Right), MoveDistanceCall 24 normal]
   \<and> opposite_cardinals south north \<and> host_calculateTurnAngle south north = 180"
proof -
  have a: "opposite_facings Left Right"
    by (simp add: opposite_facings_def directions_def)
  have b: "opposite_cardinals south north"
    by (simp add: opposite_cardinals_def host_directions_def)
  from u_turn_is_single_signed_180 [of Left Right south north] a b
  show ?thesis by (simp add: directions_def segmentCalls_def)
qed

text \<open>The tables the selection screen offers all have a position.\<close>

lemma findTableAt_valid:
  "\<forall>t \<in> set ts. 1 \<le> t \<and> t \<le> 8 \<Longrightarrow>
     findTableAt ts p = Inr None
     \<or> (\<exists>t. findTableAt ts p = Inr (Some t) \<and> TABLE_POSITIONS t = Some p)"
proof (induction ts)
  case Nil
  then show ?case by simp
next
  case (Cons t ts)
  then show ?case
    by (auto simp: TABLE_POSITIONS_def split: option.splits if_splits)
qed

lemma findTableAt_2_3:
  "\<forall>t \<in> set ts. 1 \<le> t \<and> t \<le> 8 \<Longrightarrow> findTableAt ts \<lparr>x = 2, y = 3\<rparr> = Inr None"
  using findTableAt_valid [of ts "\<lparr>x = 2, y = 3\<rparr>"]
  by (auto simp: TABLE_POSITIONS_def split: if_splits)

lemma findTableAt_3_3:
  "\<forall>t \<in> set ts. 1 \<le> t \<and> t \<le> 8 \<Longrightarrow>
     findTableAt ts \<lparr>x = 3, y = 3\<rparr> = Inr None \<or> findTableAt ts \<lparr>x = 3, y = 3\<rparr> = Inr (Some 8)"
  using findTableAt_valid [of ts "\<lparr>x = 3, y = 3\<rparr>"]
  by (auto simp: TABLE_POSITIONS_def split: if_splits)

lemmas scenario_defs =
  moveRobot_def startState_def scenario_path_def at_index_def ROBOT_START_POSITION_def
  segmentCalls_def advanceState_def

lemma scenario_first_segment:
  assumes "\<forall>t \<in> set ts. 1 \<le> t \<and> t \<le> 8"
  shows "moveRobot False True True ts (startState scenario_path) =
           ([MoveDistanceCall 24 normal],
            Inr ((startState scenario_path)\<lparr>currentStep := 1, robotPosition := \<lparr>x = 2, y = 3\<rparr>,
                   robotDirection := Up, moving_flag := True\<rparr>))"
  using findTableAt_2_3 [OF assms] by (simp add: scenario_defs planner_defs)

lemma scenario_second_segment:
  assumes "\<forall>t \<in> set ts. 1 \<le> t \<and> t \<le> 8"
  shows "\<exists>st'. moveRobot False True True ts
                 ((startState scenario_path)\<lparr>currentStep := 1, robotPosition := \<lparr>x = 2, y = 3\<rparr>,
                    robotDirection := Up, moving_flag := True\<rparr>) =
               ([TurnAngleCall 90, MoveDistanceCall 24 normal], Inr st')
             \<and> robotPosition st' = \<lparr>x = 3, y = 3\<rparr> \<and> robotDirection st' = Right"
  using findTableAt_3_3 [OF assms] by (auto simp add: scenario_defs planner_defs)

text \<open>
  Claim C7: with the Arduino connected, the two steps over the path [(2,4), (2,3), (3,3)]
  from the start pose (2, 4, up) make the calls [Move 24] for the first segment and
  [Turn +90, Move 24] for the second, and leave the pose at (3, 3) facing right; this
  holds whichever of the tables T1 .. T8 are selected.
\<close>

theorem scenario_commands_and_final_pose:
  assumes "\<forall>t \<in> set selectedTables. 1 \<le> t \<and> t \<le> 8"
  shows "\<exists>st'. moveRobotSteps 2 True selectedTables (startState scenario_path) =
               ([[MoveDistanceCall 24 normal], [TurnAngleCall 90, MoveDistanceCall 24 normal]],
                Inr st')
             \<and> robotPosition st' = \<lparr>x = 3, y = 3\<rparr> \<and> robotDirection st' = Right"
proof -
  from scenario_second_segment [OF assms] obtain st' where
    second: "moveRobot False True True selectedTables
               ((startState scenario_path)\<lparr>currentStep := 1, robotPosition := \<lparr>x = 2, y = 3\<rparr>,
                  robotDirection := Up, moving_flag := True\<rparr>) =
             ([TurnAngleCall 90, MoveDistanceCall 24 normal], Inr st')"
    and pose: "robotPosition st' = \<lparr>x = 3, y = 3\<rparr>" "robotDirection st' = Right"
    by blast
  have "moveRobotSteps 2 True selectedTables (startState scenario_path) =
          ([[MoveDistanceCall 24 normal], [TurnAngleCall 90, MoveDistanceCall 24 normal]], Inr st')"
    by (simp add: numeral_2_eq_2 scenario_first_segment [OF assms] second)
  with pose show ?thesis by blast
qed

theorem scenario_commands_and_final_pose_witness:
  "set [8, 1 :: nat] \<subseteq> {1 .. 8}
   \<and> (\<exists>st'. moveRobotSteps 2 True [8, 1] (startState scenario_path) =
               ([[MoveDistanceCall 24 normal], [TurnAngleCall 90, MoveDistanceCall 24 normal]],
                Inr st')
             \<and> robotPosition st' = \<lparr>x = 3, y = 3\<rparr> \<and> robotDirection st' = Right)"
  using scenario_commands_and_final_pose [of "[8, 1]"] by simp

section \<open>Properties of the host controller\<close>

text \<open>
  The controller's own \<open>calculateTurnAngle\<close> never gives -180, and its \<open>turnAngle\<close>
  turns the stored facing by one quarter whatever the size of the angle.
\<close>

lemma host_turn_angle_range:
  "host_calculateTurnAngle current required \<in> {-90, 0, 90, 180}"
  by (cases current; cases required;
      simp add: host_calculateTurnAngle_def host_directions_def js_rem_def Let_def)

lemma host_u_turn_moves_pose_one_quarter:
  "direction (currentPosition (controller
      (host_turnAngle connected_controller 180 precision (CallbackAfter 3 False)))) = east"
  by (simp add: host_turnAngle_def sendCommand_def later_events_def settle_def Let_def
        updatePositionAfterMove_def connected_controller_def)

text \<open>
  Claim C8: \<open>sendCommand\<close> resolves for every controller state, line and behaviour of the
  port, and never rejects. Without a connection it settles at once, hands nothing to the
  port and logs the line; a write error still resolves; a write whose callback has not
  come within 5000 ms is resolved by the timer at 5000 ms.
\<close>

theorem sendCommand_always_resolves:
  "outcome (sendCommand c command w) = Resolved
   \<and> (\<not> (port c \<and> isConnected c) \<longrightarrow>
        attempted (sendCommand c command w) = []
        \<and> settledAt (sendCommand c command w) = Some 0
        \<and> console (sendCommand c command w) = [NotConnected command])
   \<and> (port c \<and> isConnected c \<longrightarrow>
        settledAt (sendCommand c command NoCallback) = Some 5000)
   \<and> (port c \<and> isConnected c \<and> 5000 \<le> t \<longrightarrow>
        settledAt (sendCommand c command (CallbackAfter t err)) = Some 5000)"
  by (cases w) (auto simp: sendCommand_def later_events_def settle_def Let_def)

theorem sendCommand_always_resolves_witness:
  "\<not> (port (connected_controller\<lparr>isConnected := False\<rparr>)
       \<and> isConnected (connected_controller\<lparr>isConnected := False\<rparr>))
   \<and> outcome (sendCommand (connected_controller\<lparr>isConnected := False\<rparr>) (PlainLine ''STOP'')
                (CallbackAfter 3 False)) = Resolved
   \<and> attempted (sendCommand (connected_controller\<lparr>isConnected := False\<rparr>) (PlainLine ''STOP'')
                  (CallbackAfter 3 False)) = []
   \<and> port connected_controller \<and> isConnected connected_controller \<and> (5000 :: nat) \<le> 7000
   \<and> outcome (sendCommand connected_controller (PlainLine ''STOP'') (CallbackAfter 7000 True)) = Resolved
   \<and> settledAt (sendCommand connected_controller (PlainLine ''STOP'') (CallbackAfter 7000 True))
       = Some 5000
   \<and> settledAt (sendCommand connected_controller (PlainLine ''STOP'') NoCallback) = Some 5000"
  using sendCommand_always_resolves
          [of "connected_controller\<lparr>isConnected := False\<rparr>" "PlainLine ''STOP''"
              "CallbackAfter 3 False" 7000 True]
        sendCommand_always_resolves
          [of connected_controller "PlainLine ''STOP''" "CallbackAfter 7000 True" 7000 True]
  by (simp add: connected_controller_def)

text \<open>
  Claim C9: on the controller, \<open>moveDistance\<close> with a distance that is not positive and
  \<open>turnAngle\<close> with the angle 0 hand no line to the port and leave the controller, and
  so the stored pose, as it was.
\<close>

theorem host_invalid_commands_are_noops:
  "(inches \<le> 0 \<longrightarrow>
      lines (host_moveDistance c inches spd w) = []
      \<and> controller (host_moveDistance c inches spd w) = c
      \<and> promise_of (host_moveDistance c inches spd w) = Resolved)
   \<and> lines (host_turnAngle c 0 spd w) = []
   \<and> controller (host_turnAngle c 0 spd w) = c
   \<and> promise_of (host_turnAngle c 0 spd w) = Resolved"
  by (simp add: host_moveDistance_def host_turnAngle_def)

theorem host_invalid_commands_are_noops_witness:
  "(-3 :: real) \<le> 0
   \<and> lines (host_moveDistance connected_controller (-3) normal (CallbackAfter 3 False)) = []
   \<and> currentPosition (controller (host_moveDistance connected_controller (-3) normal
                                    (CallbackAfter 3 False)))
       = \<lparr>x = 2, y = 4, direction = north\<rparr>
   \<and> lines (host_turnAngle connected_controller 0 normal (CallbackAfter 3 False)) = []"
  using host_invalid_commands_are_noops
          [of "-3" connected_controller normal "CallbackAfter 3 False"]
  by (simp add: connected_controller_def)

section \<open>Properties of the firmware: command handling\<close>

text \<open>
  Claim C3: while the sketch is executing a motion (\<open>isMoving\<close> is true), \<open>moveDistance\<close>
  and \<open>turnAngle\<close> print the BLOCKED line and change nothing else, whether called directly
  or through the command chain for a line that starts with \<open>MOVE_DISTANCE:\<close> or
  \<open>TURN_ANGLE:\<close>: every field of the state other than the serial output keeps its value.
\<close>

theorem overlapping_commands_are_blocked:
  "isMoving st \<Longrightarrow>
     moveDistance now inches st = st\<lparr>serialOut := serialOut st @ [BLOCKED]\<rparr>
     \<and> turnAngle now degrees st = st\<lparr>serialOut := serialOut st @ [BLOCKED]\<rparr>
     \<and> (startsWith command ''MOVE_DISTANCE:'' \<or> startsWith command ''TURN_ANGLE:'' \<longrightarrow>
          dispatch toFloat e command st = st\<lparr>serialOut := serialOut st @ [BLOCKED]\<rparr>)"
  by (auto simp add: moveDistance_def turnAngle_def println_def dispatch_def)

theorem overlapping_commands_are_blocked_witness:
  "isMoving (moveDistance 0 24 power_on)
   \<and> startsWith ''TURN_ANGLE:90.0'' ''TURN_ANGLE:''
   \<and> moveDistance 7 12 (moveDistance 0 24 power_on) =
       (moveDistance 0 24 power_on)
         \<lparr>serialOut := serialOut (moveDistance 0 24 power_on) @ [BLOCKED]\<rparr>
   \<and> dispatch (\<lambda>s. 90) quiet_env ''TURN_ANGLE:90.0'' (moveDistance 0 24 power_on) =
       (moveDistance 0 24 power_on)
         \<lparr>serialOut := serialOut (moveDistance 0 24 power_on) @ [BLOCKED]\<rparr>"
proof -
  have m: "isMoving (moveDistance 0 24 power_on)"
    by (simp add: moveDistance_def power_on_def println_def)
  have s: "startsWith ''TURN_ANGLE:90.0'' ''TURN_ANGLE:''"
    by (simp add: startsWith_def)
  from overlapping_commands_are_blocked
         [where st = "moveDistance 0 24 power_on" and now = 7 and inches = 12
            and command = "''TURN_ANGLE:90.0''" and toFloat = "\<lambda>s. 90" and e = quiet_env] m s
  show ?thesis by simp
qed

lemma isspace_toupper: "isspace (toupper c) = isspace c"
  by (simp add: toupper_def isspace_def)

lemma dropWhile_toUpperCase:
  "dropWhile isspace (toUpperCase s) = toUpperCase (dropWhile isspace s)"
  by (induction s) (simp_all add: toUpperCase_def isspace_toupper)

lemma trim_toUpperCase: "trim (toUpperCase s) = toUpperCase (trim s)"
proof -
  have "rev (toUpperCase s) = toUpperCase (rev s)" for s
    by (simp add: toUpperCase_def rev_map)
  then show ?thesis
    by (simp add: trim_def dropWhile_toUpperCase)
qed

lemma trim_spaces:
  assumes a: "\<forall>c \<in> set a. isspace c" and b: "\<forall>c \<in> set b. isspace c"
  shows "trim (a @ s @ b) = trim s"
proof -
  have front: "dropWhile isspace (a @ s @ b) = dropWhile isspace (s @ b)"
    using a by (simp add: dropWhile_append2)
  have rear: "dropWhile isspace (rev (dropWhile isspace (s @ b))) =
              dropWhile isspace (rev (dropWhile isspace s))"
  proof (cases "\<forall>c \<in> set s. isspace c")
    case True
    then have "dropWhile isspace (s @ b) = []" "dropWhile isspace s = []"
      using b by auto
    then show ?thesis by (simp only: rev.simps dropWhile.simps)
  next
    case False
    then obtain c where "c \<in> set s" "\<not> isspace c" by blast
    then have "dropWhile isspace (s @ b) = dropWhile isspace s @ b"
      by (simp add: dropWhile_append1)
    moreover have "dropWhile isspace (rev b @ rev (dropWhile isspace s)) =
                   dropWhile isspace (rev (dropWhile isspace s))"
      by (rule dropWhile_append2) (use b in simp)
    ultimately show ?thesis by simp
  qed
  show ?thesis by (simp add: trim_def front rear)
qed

lemma dispatch_unknown:
  "\<not> known_command command \<Longrightarrow>
     dispatch toFloat e command st = st\<lparr>serialOut := serialOut st @ [UnknownCommand command]\<rparr>"
  by (simp add: known_command_def dispatch_def println_def)

text \<open>
  Claim C10, as stated, has a line that matches no command answered with the
  Unknown-command line only. The sketch echoes every line it receives before it looks at
  it, so the answer to "foo" is two lines, the echo and then the diagnostic.
\<close>

theorem unknown_line_is_echoed_first:
  "\<not> known_command (toUpperCase (trim ''foo''))
   \<and> emitted power_on (processLine (\<lambda>s. 0) quiet_env ''foo'' power_on)
       = [Received ''FOO'', UnknownCommand ''FOO'']
   \<and> emitted power_on (processLine (\<lambda>s. 0) quiet_env ''foo'' power_on)
       \<noteq> [UnknownCommand ''FOO'']"
  by (simp add: emitted_def processLine_def dispatch_def println_def power_on_def Let_def
        known_command_def startsWith_def toUpperCase_def toupper_def trim_def isspace_def)

text \<open>
  Claim C10, amended: the sketch trims and upper-cases every received line before the
  comparisons, so two lines that differ only in letter case, or only in white space
  around them, have the same effect; a line that matches no known command is answered
  with the echo every line gets followed by the Unknown-command line only, and leaves
  every other part of the state as it was.
\<close>

theorem command_line_normalised_and_unknown_ignored:
  "(toUpperCase r1 = toUpperCase r2 \<longrightarrow>
      processLine toFloat e r1 st = processLine toFloat e r2 st)
   \<and> ((\<forall>c \<in> set a. isspace c) \<and> (\<forall>c \<in> set b. isspace c) \<longrightarrow>
        processLine toFloat e (a @ r @ b) st = processLine toFloat e r st)
   \<and> (\<not> known_command (toUpperCase (trim r)) \<longrightarrow>
        processLine toFloat e r st =
          st\<lparr>serialOut := serialOut st @ [Received (toUpperCase (trim r)),
                                          UnknownCommand (toUpperCase (trim r))]\<rparr>)"
proof (intro conjI impI)
  assume "toUpperCase r1 = toUpperCase r2"
  then have "toUpperCase (trim r1) = toUpperCase (trim r2)"
    by (simp add: trim_toUpperCase [symmetric])
  then show "processLine toFloat e r1 st = processLine toFloat e r2 st"
    by (simp add: processLine_def)
next
  assume "(\<forall>c \<in> set a. isspace c) \<and> (\<forall>c \<in> set b. isspace c)"
  then show "processLine toFloat e (a @ r @ b) st = processLine toFloat e r st"
    by (simp add: processLine_def trim_spaces)
next
  assume "\<not> known_command (toUpperCase (trim r))"
  then show "processLine toFloat e r st =
          st\<lparr>serialOut := serialOut st @ [Received (toUpperCase (trim r)),
                                          UnknownCommand (toUpperCase (trim r))]\<rparr>"
    by (simp add: processLine_def dispatch_unknown println_def Let_def)
qed

theorem command_line_normalised_and_unknown_ignored_witness:
  "toUpperCase ''reset'' = toUpperCase ''RESET''
   \<and> processLine (\<lambda>s. 0) quiet_env ''reset'' (moveDistance 0 24 power_on)
       = processLine (\<lambda>s. 0) quiet_env ''RESET'' (moveDistance 0 24 power_on)
   \<and> isspace (CHR '' '') \<and> isspace (CHR 0x0D)
   \<and> processLine (\<lambda>s. 0) quiet_env ('' '' @ ''reset'' @ [CHR 0x0D]) (moveDistance 0 24 power_on)
       = processLine (\<lambda>s. 0) quiet_env ''reset'' (moveDistance 0 24 power_on)
   \<and> \<not> isMoving (processLine (\<lambda>s. 0) quiet_env ''reset'' (moveDistance 0 24 power_on))
   \<and> \<not> known_command (toUpperCase (trim ''hello''))
   \<and> processLine (\<lambda>s. 0) quiet_env ''hello'' power_on
       = power_on\<lparr>serialOut := [Received ''HELLO'', UnknownCommand ''HELLO'']\<rparr>"
proof -
  have u: "toUpperCase ''reset'' = toUpperCase ''RESET''"
    by (simp add: toUpperCase_def toupper_def)
  have sp: "(\<forall>c \<in> set '' ''. isspace c) \<and> (\<forall>c \<in> set [CHR 0x0D]. isspace c)"
    by (simp add: isspace_def)
  have h: "toUpperCase (trim ''hello'') = ''HELLO''"
    by (simp add: toUpperCase_def toupper_def trim_def isspace_def)
  have k: "\<not> known_command (toUpperCase (trim ''hello''))"
    by (simp add: h known_command_def startsWith_def)
  have r: "\<not> isMoving (processLine (\<lambda>s. 0) quiet_env ''RESET'' (moveDistance 0 24 power_on))"
    by (simp add: processLine_def toUpperCase_def toupper_def trim_def isspace_def dispatch_def
        startsWith_def stopMotors_def println_def)
  from command_line_normalised_and_unknown_ignored
         [where ?r1.0 = "''reset''" and ?r2.0 = "''RESET''" and toFloat = "\<lambda>s. 0" and e = quiet_env
            and st = "moveDistance 0 24 power_on" and a = "'' ''" and b = "[CHR 0x0D]"
            and r = "''reset''"]
       command_line_normalised_and_unknown_ignored
         [where ?r1.0 = "''reset''" and ?r2.0 = "''RESET''" and toFloat = "\<lambda>s. 0" and e = quiet_env
            and st = power_on and a = "'' ''" and b = "[CHR 0x0D]" and r = "''hello''"]
       u sp h k r
  show ?thesis by (simp add: isspace_def power_on_def)
qed

section \<open>Properties of the firmware: obstacle latch\<close>

lemma sampleCycles_snoc:
  "sampleCycles (ds @ [d]) st = checkForObstacles d (sampleCycles ds st)"
  by (induction ds arbitrary: st) simp_all

lemma below_not_clear: "anyBelow d \<Longrightarrow> \<not> allClearWithMargin d"
  by (auto simp: anyBelow_def allClearWithMargin_def OBSTACLE_DISTANCE_CM_def
        CLEAR_HYSTERESIS_CM_def split: prod.splits)

lemma trailing_snoc:
  "trailing P (ds @ [d]) =
     (if anyBelow d \<or> allClearWithMargin d then (if P d then trailing P ds + 1 else 0)
      else trailing P ds)"
  by (simp add: trailing_def decisive_def)

lemma trailing_exclusive:
  "trailing anyBelow ds = 0 \<or> trailing allClearWithMargin ds = 0"
  using below_not_clear by (cases "rev (decisive ds)") (auto simp: trailing_def)

lemma check_counts:
  "obstacleHitCount (checkForObstacles d st) =
     (if anyBelow d then min (obstacleHitCount st + 1) 3
      else if allClearWithMargin d then 0 else obstacleHitCount st)"
  "clearHitCount (checkForObstacles d st) =
     (if anyBelow d then 0
      else if allClearWithMargin d then min (clearHitCount st + 1) 3 else clearHitCount st)"
  by (simp_all add: checkForObstacles_def Let_def println_def REQUIRED_CONSECUTIVE_HITS_def)

lemma check_latch:
  "obstacleLatched (checkForObstacles d st) =
     ((obstacleLatched st \<or> obstacleHitCount (checkForObstacles d st) \<ge> 3)
      \<and> \<not> clearHitCount (checkForObstacles d st) \<ge> 3)"
  by (auto simp add: checkForObstacles_def Let_def println_def REQUIRED_CONSECUTIVE_HITS_def)

text \<open>The two counters are the trailing runs of hits and of clears, capped at 3.\<close>

lemma counts_run:
  "obstacleHitCount (sampleCycles ds power_on) = min 3 (trailing anyBelow ds)
   \<and> clearHitCount (sampleCycles ds power_on) = min 3 (trailing allClearWithMargin ds)"
proof (induction ds rule: rev_induct)
  case Nil
  then show ?case by (simp add: power_on_def trailing_def decisive_def)
next
  case (snoc d ds)
  then show ?case
    using below_not_clear [of d]
    by (auto simp add: sampleCycles_snoc check_counts trailing_snoc)
qed

lemma latch_follows_full_counter:
  "(obstacleHitCount (sampleCycles ds power_on) \<ge> 3 \<longrightarrow>
      obstacleLatched (sampleCycles ds power_on))
   \<and> (clearHitCount (sampleCycles ds power_on) \<ge> 3 \<longrightarrow>
        \<not> obstacleLatched (sampleCycles ds power_on))"
proof (cases ds rule: rev_cases)
  case Nil
  then show ?thesis by (simp add: power_on_def)
next
  case (snoc ds' d)
  define st where "st = sampleCycles ds' power_on"
  define st' where "st' = checkForObstacles d st"
  have st': "sampleCycles ds power_on = st'"
    by (simp add: snoc sampleCycles_snoc st_def st'_def)
  have latch: "obstacleLatched st' =
      ((obstacleLatched st \<or> obstacleHitCount st' \<ge> 3) \<and> \<not> clearHitCount st' \<ge> 3)"
    unfolding st'_def by (rule check_latch)
  have "obstacleHitCount st' = 0 \<or> clearHitCount st' = 0"
    using counts_run [of ds] trailing_exclusive [of ds] by (auto simp: st')
  then show ?thesis
    unfolding st' using latch by auto
qed

lemma latch_engages_only_on_third_hit:
  assumes "\<not> obstacleLatched (sampleCycles ds power_on)"
      and "obstacleLatched (sampleCycles (ds @ [d]) power_on)"
  shows "anyBelow d \<and> REQUIRED_CONSECUTIVE_HITS \<le> trailing anyBelow (ds @ [d])"
proof -
  have h: "obstacleHitCount (sampleCycles (ds @ [d]) power_on) \<ge> 3"
    using assms by (simp add: sampleCycles_snoc check_latch [of d "sampleCycles ds power_on"])
  then have t: "3 \<le> trailing anyBelow (ds @ [d])"
    using counts_run [of "ds @ [d]"] by simp
  have "anyBelow d"
  proof (rule ccontr)
    assume nb: "\<not> anyBelow d"
    show False
    proof (cases "allClearWithMargin d")
      case True
      then show ?thesis using h nb by (simp add: sampleCycles_snoc check_counts)
    next
      case False
      then have "obstacleHitCount (sampleCycles ds power_on) \<ge> 3"
        using h nb by (simp add: sampleCycles_snoc check_counts)
      then show ?thesis using latch_follows_full_counter [of ds] assms(1) by simp
    qed
  qed
  then show ?thesis using t by (simp add: REQUIRED_CONSECUTIVE_HITS_def)
qed

lemma latch_clears_only_on_third_clear:
  assumes "obstacleLatched (sampleCycles ds power_on)"
      and "\<not> obstacleLatched (sampleCycles (ds @ [d]) power_on)"
  shows "allClearWithMargin d
         \<and> REQUIRED_CONSECUTIVE_HITS \<le> trailing allClearWithMargin (ds @ [d])"
proof -
  have h: "clearHitCount (sampleCycles (ds @ [d]) power_on) \<ge> 3"
    using assms by (simp add: sampleCycles_snoc check_latch [of d "sampleCycles ds power_on"])
  then have t: "3 \<le> trailing allClearWithMargin (ds @ [d])"
    using counts_run [of "ds @ [d]"] by simp
  have "allClearWithMargin d"
  proof (rule ccontr)
    assume nc: "\<not> allClearWithMargin d"
    show False
    proof (cases "anyBelow d")
      case True
      then show ?thesis using h nc by (simp add: sampleCycles_snoc check_counts)
    next
      case False
      then have "clearHitCount (sampleCycles ds power_on) \<ge> 3"
        using h nc by (simp add: sampleCycles_snoc check_counts)
      then show ?thesis using latch_follows_full_counter [of ds] assms(1) by simp
    qed
  qed
  then show ?thesis using t by (simp add: REQUIRED_CONSECUTIVE_HITS_def)
qed

lemma three_hits_engage:
  assumes "anyBelow a" "anyBelow b" "anyBelow c"
  shows "obstacleLatched (sampleCycles (ds @ [a, b, c]) power_on)"
proof -
  have "trailing anyBelow (ds @ [a, b, c]) \<ge> 3"
    using assms by (simp add: trailing_def decisive_def)
  then have "obstacleHitCount (sampleCycles (ds @ [a, b, c]) power_on) \<ge> 3"
    using counts_run [of "ds @ [a, b, c]"] by simp
  then show ?thesis using latch_follows_full_counter [of "ds @ [a, b, c]"] by simp
qed

lemma two_hits_then_above_hold:
  assumes "anyBelow a" "anyBelow b" "\<not> anyBelow c"
  shows "\<not> obstacleLatched (sampleCycles [a, b, c] power_on)"
  using assms by (simp add: check_latch check_counts power_on_def)

lemmas sample_defs =
  in_band_def near_def far_def anyBelow_def allClearWithMargin_def
  OBSTACLE_DISTANCE_CM_def CLEAR_HYSTERESIS_CM_def

text \<open>
  Claim C4, as stated, lets the latch become active only after 3 consecutive cycles with a
  sensor below the trigger distance. Two such cycles, one cycle inside the hysteresis band
  (22 cm: not below 20.32, not above 25.32) and a third hit engage the latch, although the
  cycle before the last had no sensor below the trigger.
\<close>

theorem latch_engages_across_band_cycle:
  "\<not> anyBelow in_band
   \<and> \<not> obstacleLatched (sampleCycles [near, near, in_band] power_on)
   \<and> obstacleLatched (sampleCycles [near, near, in_band, near] power_on)"
  by (simp add: check_latch check_counts power_on_def sample_defs)

text \<open>
  Claim C4, amended: the latch becomes active only at a cycle with some sensor below the
  trigger distance that completes 3 such cycles with no all-clear cycle between them;
  cycles inside the hysteresis band neither count nor reset the count, so the 3 cycles
  need not be consecutive. From power-on, 2 below-threshold cycles followed by one cycle
  that is not below threshold do not engage it, and 3 below-threshold cycles in a row
  always do. Once active, the latch clears only at a cycle with all three sensors above
  trigger plus margin that completes 3 such cycles with no below-threshold cycle between
  them.
\<close>

theorem latch_debounce_and_hysteresis:
  "(\<not> obstacleLatched (sampleCycles ds power_on)
      \<and> obstacleLatched (sampleCycles (ds @ [d]) power_on) \<longrightarrow>
      anyBelow d \<and> REQUIRED_CONSECUTIVE_HITS \<le> trailing anyBelow (ds @ [d]))
   \<and> (obstacleLatched (sampleCycles ds power_on)
      \<and> \<not> obstacleLatched (sampleCycles (ds @ [d]) power_on) \<longrightarrow>
      allClearWithMargin d
      \<and> REQUIRED_CONSECUTIVE_HITS \<le> trailing allClearWithMargin (ds @ [d]))
   \<and> (anyBelow a \<and> anyBelow b \<and> \<not> anyBelow c \<longrightarrow>
        \<not> obstacleLatched (sampleCycles [a, b, c] power_on))
   \<and> (anyBelow a \<and> anyBelow b \<and> anyBelow c \<longrightarrow>
        obstacleLatched (sampleCycles (ds @ [a, b, c]) power_on))"
  using latch_engages_only_on_third_hit [of ds d] latch_clears_only_on_third_clear [of ds d]
        two_hits_then_above_hold [of a b c] three_hits_engage [of a b c ds]
  by blast

theorem latch_debounce_and_hysteresis_witness:
  "\<not> obstacleLatched (sampleCycles [near, near, in_band] power_on)
   \<and> obstacleLatched (sampleCycles ([near, near, in_band] @ [near]) power_on)
   \<and> anyBelow near
   \<and> trailing anyBelow ([near, near, in_band] @ [near]) = 3
   \<and> obstacleLatched (sampleCycles [near, near, near, far, in_band, far] power_on)
   \<and> \<not> obstacleLatched (sampleCycles ([near, near, near, far, in_band, far] @ [far]) power_on)
   \<and> allClearWithMargin far
   \<and> trailing allClearWithMargin ([near, near, near, far, in_band, far] @ [far]) = 3
   \<and> \<not> anyBelow in_band
   \<and> \<not> obstacleLatched (sampleCycles [near, near, in_band] power_on)
   \<and> obstacleLatched (sampleCycles ([far] @ [near, near, near]) power_on)"
proof -
  have e: "\<not> obstacleLatched (sampleCycles [near, near, in_band] power_on)
           \<and> obstacleLatched (sampleCycles ([near, near, in_band] @ [near]) power_on)"
    by (simp add: check_latch check_counts power_on_def sample_defs)
  have r: "obstacleLatched (sampleCycles [near, near, near, far, in_band, far] power_on)
           \<and> \<not> obstacleLatched (sampleCycles ([near, near, near, far, in_band, far] @ [far]) power_on)"
    by (simp add: check_latch check_counts power_on_def sample_defs)
  have s: "anyBelow near \<and> \<not> anyBelow in_band \<and> allClearWithMargin far"
    by (simp add: sample_defs)
  have t: "trailing anyBelow ([near, near, in_band] @ [near]) = 3
      \<and> trailing allClearWithMargin ([near, near, near, far, in_band, far] @ [far]) = 3"
    by (simp add: trailing_def decisive_def sample_defs)
  from latch_debounce_and_hysteresis
         [where ds = "[near, near, in_band]" and d = near and a = near and b = near and c = in_band]
       latch_debounce_and_hysteresis
         [where ds = "[near, near, near, far, in_band, far]" and d = far and a = near and b = near
            and c = near]
       latch_debounce_and_hysteresis
         [where ds = "[far]" and d = far and a = near and b = near and c = near]
       e r s t
  show ?thesis by simp
qed

section \<open>Properties of the firmware: precision movement\<close>

subsection \<open>The durations the sketch computes\<close>

lemmas float_defs =
  to_float_def float_ulp_def float_exp.simps round_even_def float_mul_def float_div_def Let_def

lemma MS_PER_INCH_value: "MS_PER_INCH = 10922667 / 32768"
  by (simp add: MS_PER_INCH_def INCHES_PER_SECOND_def float_defs)

lemma DEGREES_PER_MS_value: "DEGREES_PER_MS = 3019899 / 16777216"
  by (simp add: DEGREES_PER_MS_def float_defs)

text \<open>
  A move of 24 inches is given 8000 ms. A turn of 90 degrees is given 499 ms, not 500:
  the stored \<open>DEGREES_PER_MS\<close> is a little above 0.18, and the quotient, rounded to a
  float, lies just below 500.
\<close>

lemma move_ms_24: "to_ulong (float_mul 24 MS_PER_INCH) = 8000"
  by (simp add: MS_PER_INCH_value to_ulong_def float_defs)

lemma move_time_24: "move_time 24 = 8000"
  by (simp add: move_time_def move_ms_24)

lemma turn_ms_90: "to_ulong (float_div 90 DEGREES_PER_MS) = 499"
  by (simp add: DEGREES_PER_MS_value to_ulong_def float_defs)


text \<open>
  The obstacle thresholds are float constants as well. Readings are whole centimetres, and
  on those the rounded constants decide exactly as the decimal numbers do.
\<close>

lemma thresholds_as_floats:
  "(real_of_int d < OBSTACLE_DISTANCE_CM) = (real_of_int d < to_float OBSTACLE_DISTANCE_CM)"
  "(real_of_int d > OBSTACLE_DISTANCE_CM + CLEAR_HYSTERESIS_CM) =
     (real_of_int d > to_float (to_float OBSTACLE_DISTANCE_CM + to_float CLEAR_HYSTERESIS_CM))"
proof -
  have low: "to_float OBSTACLE_DISTANCE_CM = 10653532 / 524288"
    by (simp add: OBSTACLE_DISTANCE_CM_def float_defs)
  have margin: "to_float CLEAR_HYSTERESIS_CM = 5"
    by (simp add: CLEAR_HYSTERESIS_CM_def float_defs)
  have high: "to_float (10653532 / 524288 + 5) = 13274972 / 524288"
    by (simp add: float_defs)
  have a: "(real_of_int d < OBSTACLE_DISTANCE_CM) = (d \<le> 20)"
    by (simp add: OBSTACLE_DISTANCE_CM_def; linarith)
  have b: "(real_of_int d < to_float OBSTACLE_DISTANCE_CM) = (d \<le> 20)"
    unfolding low by linarith
  have c: "(real_of_int d > OBSTACLE_DISTANCE_CM + CLEAR_HYSTERESIS_CM) = (d \<ge> 26)"
    by (simp add: OBSTACLE_DISTANCE_CM_def CLEAR_HYSTERESIS_CM_def; linarith)
  have e: "(real_of_int d > to_float (to_float OBSTACLE_DISTANCE_CM + to_float CLEAR_HYSTERESIS_CM))
             = (d \<ge> 26)"
    unfolding low margin high by linarith
  show "(real_of_int d < OBSTACLE_DISTANCE_CM) = (real_of_int d < to_float OBSTACLE_DISTANCE_CM)"
    by (simp only: a b)
  show "(real_of_int d > OBSTACLE_DISTANCE_CM + CLEAR_HYSTERESIS_CM) =
       (real_of_int d > to_float (to_float OBSTACLE_DISTANCE_CM + to_float CLEAR_HYSTERESIS_CM))"
    by (simp only: c e)
qed

subsection \<open>What each function leaves alone\<close>

lemma completions_println [simp]:
  "completions (println l st) = completions st + (if l = MOVEMENT_COMPLETE_SUCCESS then 1 else 0)"
  by (simp add: completions_def println_def)

lemma completions_update [simp]:
  "completions (st\<lparr>isMoving := v0\<rparr>) = completions st"
  "completions (st\<lparr>currentCommand := v1\<rparr>) = completions st"
  "completions (st\<lparr>movementStartTime := v2\<rparr>) = completions st"
  "completions (st\<lparr>targetDistance := v3\<rparr>) = completions st"
  "completions (st\<lparr>targetAngle := v4\<rparr>) = completions st"
  "completions (st\<lparr>isPrecisionMode := v5\<rparr>) = completions st"
  "completions (st\<lparr>pausedForObstacle := v6\<rparr>) = completions st"
  "completions (st\<lparr>pauseStartTime := v7\<rparr>) = completions st"
  "completions (st\<lparr>totalPausedMs := v8\<rparr>) = completions st"
  "completions (st\<lparr>obstacleHitCount := v9\<rparr>) = completions st"
  "completions (st\<lparr>clearHitCount := v10\<rparr>) = completions st"
  "completions (st\<lparr>obstacleLatched := v11\<rparr>) = completions st"
  "completions (st\<lparr>lastObstacle := v12\<rparr>) = completions st"
  "completions (st\<lparr>lastDebug := v13\<rparr>) = completions st"
  "completions (st\<lparr>motorA1 := v14\<rparr>) = completions st"
  "completions (st\<lparr>motorB1 := v15\<rparr>) = completions st"
  "completions (st\<lparr>speedMotorAB := v16\<rparr>) = completions st"
  "completions (st\<lparr>motora2 := v17\<rparr>) = completions st"
  "completions (st\<lparr>motorb2 := v18\<rparr>) = completions st"
  "completions (st\<lparr>speedMotorab := v19\<rparr>) = completions st"
  "completions (st\<lparr>TABLE1_LED_PIN := v20\<rparr>) = completions st"
  "completions (st\<lparr>TABLE2_LED_PIN := v21\<rparr>) = completions st"
  "completions (st\<lparr>TABLE3_LED_PIN := v22\<rparr>) = completions st"
  by (simp_all add: completions_def)

lemma println_keeps [simp]:
  "isMoving (println l st) = isMoving st"
  "isPrecisionMode (println l st) = isPrecisionMode st"
  "currentCommand (println l st) = currentCommand st"
  "movementStartTime (println l st) = movementStartTime st"
  "targetAngle (println l st) = targetAngle st"
  "targetDistance (println l st) = targetDistance st"
  "totalPausedMs (println l st) = totalPausedMs st"
  "pausedForObstacle (println l st) = pausedForObstacle st"
  "pauseStartTime (println l st) = pauseStartTime st"
  "speedMotorAB (println l st) = speedMotorAB st"
  "speedMotorab (println l st) = speedMotorab st"
  "obstacleLatched (println l st) = obstacleLatched st"
  "lastObstacle (println l st) = lastObstacle st"
  by (simp_all add: println_def)

lemma checkForObstacles_keeps [simp]:
  "isMoving (checkForObstacles d st) = isMoving st"
  "isPrecisionMode (checkForObstacles d st) = isPrecisionMode st"
  "currentCommand (checkForObstacles d st) = currentCommand st"
  "movementStartTime (checkForObstacles d st) = movementStartTime st"
  "targetAngle (checkForObstacles d st) = targetAngle st"
  "targetDistance (checkForObstacles d st) = targetDistance st"
  "totalPausedMs (checkForObstacles d st) = totalPausedMs st"
  "pausedForObstacle (checkForObstacles d st) = pausedForObstacle st"
  "pauseStartTime (checkForObstacles d st) = pauseStartTime st"
  "speedMotorAB (checkForObstacles d st) = speedMotorAB st"
  "speedMotorab (checkForObstacles d st) = speedMotorab st"
  "completions (checkForObstacles d st) = completions st"
  by (simp_all add: checkForObstacles_def Let_def println_def completions_def split: prod.splits)

lemma publishObstacle_keeps [simp]:
  "isMoving (publishObstacle d st) = isMoving st"
  "isPrecisionMode (publishObstacle d st) = isPrecisionMode st"
  "currentCommand (publishObstacle d st) = currentCommand st"
  "movementStartTime (publishObstacle d st) = movementStartTime st"
  "targetAngle (publishObstacle d st) = targetAngle st"
  "targetDistance (publishObstacle d st) = targetDistance st"
  "totalPausedMs (publishObstacle d st) = totalPausedMs st"
  "pausedForObstacle (publishObstacle d st) = pausedForObstacle st"
  "pauseStartTime (publishObstacle d st) = pauseStartTime st"
  "speedMotorAB (publishObstacle d st) = speedMotorAB st"
  "speedMotorab (publishObstacle d st) = speedMotorab st"
  "completions (publishObstacle d st) = completions st"
  by (simp_all add: publishObstacle_def Let_def)

lemma stopMotors_keeps [simp]:
  "totalPausedMs (stopMotors st) = totalPausedMs st"
  "pausedForObstacle (stopMotors st) = pausedForObstacle st"
  "currentCommand (stopMotors st) = ''STOP''"
  "isMoving (stopMotors st) = False"
  "isPrecisionMode (stopMotors st) = isPrecisionMode st"
  "completions (stopMotors st) = completions st"
  "speedMotorAB (stopMotors st) = 0"
  "speedMotorab (stopMotors st) = 0"
  by (simp_all add: stopMotors_def println_def completions_def)

lemma driveForward_keeps [simp]:
  "totalPausedMs (driveForward l r st) = totalPausedMs st"
  "pausedForObstacle (driveForward l r st) = pausedForObstacle st"
  "currentCommand (driveForward l r st) = currentCommand st"
  "isMoving (driveForward l r st) = isMoving st"
  "isPrecisionMode (driveForward l r st) = isPrecisionMode st"
  "targetDistance (driveForward l r st) = targetDistance st"
  "movementStartTime (driveForward l r st) = movementStartTime st"
  "completions (driveForward l r st) = completions st"
  by (simp_all add: driveForward_def completions_def)

lemma gyroDrive_keeps [simp]:
  "totalPausedMs (gyroDrive e st) = totalPausedMs st"
  "pausedForObstacle (gyroDrive e st) = pausedForObstacle st"
  "currentCommand (gyroDrive e st) = currentCommand st"
  "isMoving (gyroDrive e st) = isMoving st"
  "isPrecisionMode (gyroDrive e st) = isPrecisionMode st"
  "targetDistance (gyroDrive e st) = targetDistance st"
  "movementStartTime (gyroDrive e st) = movementStartTime st"
  "completions (gyroDrive e st) = completions st"
  by (simp_all add: gyroDrive_def Let_def completions_def println_def driveForward_def split: option.splits prod.splits)

subsection \<open>The pause accounting is never used\<close>

text \<open>
  \<open>stopMotors\<close> clears \<open>isMoving\<close> and sets \<open>currentCommand\<close> to "STOP". The pause branch
  of \<open>checkPrecisionMovement\<close> calls it, so a paused distance move is never looked at again
  and the resume branch, the only place that adds to \<open>totalPausedMs\<close>, is never reached:
  in every reachable state \<open>totalPausedMs\<close> is 0.
\<close>

lemma pause_idle_println [simp]: "pause_idle (println l st) = pause_idle st"
  by (simp add: pause_idle_def)

lemma pause_idle_checkForObstacles [simp]: "pause_idle (checkForObstacles d st) = pause_idle st"
  by (simp add: pause_idle_def)

lemma pause_idle_publishObstacle [simp]: "pause_idle (publishObstacle d st) = pause_idle st"
  by (simp add: pause_idle_def)

lemma pause_idle_stopped: "totalPausedMs st = 0 \<Longrightarrow> currentCommand st = ''STOP'' \<Longrightarrow> pause_idle st"
  by (simp add: pause_idle_def)



















subsection \<open>Turns and distance moves\<close>

lemma turning_publishObstacle [simp]:
  "turning t0 deg (publishObstacle d st) = turning t0 deg st"
  by (simp add: turning_def)








lemmas eval_defs =
  loop_def publishObstacle_def checkForObstacles_def processLine_def dispatch_def
  moveDistance_def turnAngle_def checkPrecisionMovement_def gyroDrive_def gyroSpeeds_def driveForward_def
  stopMotors_def println_def Let_def UTS_ENABLED_def REQUIRED_CONSECUTIVE_HITS_def
  anyBelow_def allClearWithMargin_def OBSTACLE_DISTANCE_CM_def CLEAR_HYSTERESIS_CM_def
  toUpperCase_def toupper_def trim_def isspace_def startsWith_def substring_def
  move_ms_24 turn_ms_90
  precisionSpeed_def turnSpeed_def normalX_def normalY_def tolerance_def constrain_def
  tick_def quiet_env_def far_def near_def booted_def sketch_setup_def power_on_def

lemma after_pause_eq: "after_pause =
  \<lparr>isMoving = False, currentCommand = ''STOP'', movementStartTime = 0, targetDistance = 24,
      targetAngle = 0, isPrecisionMode = True, pausedForObstacle = True, pauseStartTime = 2000,
      totalPausedMs = 0, obstacleHitCount = 0, clearHitCount = 3, obstacleLatched = False,
      lastObstacle = False, lastDebug = 1000,
      motorA1 = False, motorB1 = False, speedMotorAB = 0,
      motora2 = False, motorb2 = False, speedMotorab = 0,
      TABLE1_LED_PIN = False, TABLE2_LED_PIN = False, TABLE3_LED_PIN = False,
      serialOut = [AdxlDetected, InitialReadings None, MotorsStopped, ReadyBanner,
   Received ''MOVE_DISTANCE:24'', MovingInches 24 8000,
   GyroDebug 13 172 0 0 150 150, ObstacleLatchedMsg 10 100 100,
   OBSTACLE_DETECTED, MotorsStopped, MOVEMENT_PAUSED_OBSTACLE,
   ObstacleClearedDebounced, OBSTACLE_CLEARED]\<rparr>"
  unfolding after_pause_def obstacle_scenario_def
  by (simp add: eval_defs)




lemma moveDistance_starts:
  "\<not> isMoving st \<Longrightarrow> moving_distance now inches (moveDistance now inches st)
     \<and> completions (moveDistance now inches st) = completions st"
  by (simp add: moveDistance_def moving_distance_def Let_def)

lemma check_move_paused:
  assumes "moving_distance t0 inches st"
      and "obstacleLatched (checkForObstacles (check_distances e) st)"
  shows "\<not> isMoving (checkPrecisionMovement e st)
         \<and> isPrecisionMode (checkPrecisionMovement e st)
         \<and> pausedForObstacle (checkPrecisionMovement e st)
         \<and> currentCommand (checkPrecisionMovement e st) = ''STOP''
         \<and> completions (checkPrecisionMovement e st) = completions st"
  using assms
  by (simp add: checkPrecisionMovement_def moving_distance_def Let_def UTS_ENABLED_def)

lemma check_move_unobstructed:
  assumes "moving_distance t0 inches st"
      and "\<not> obstacleLatched (checkForObstacles (check_distances e) st)"
  shows "(currentTime e - t0 < move_time inches \<longrightarrow>
            moving_distance t0 inches (checkPrecisionMovement e st)
            \<and> completions (checkPrecisionMovement e st) = completions st)
         \<and> (move_time inches \<le> currentTime e - t0 \<longrightarrow>
            completions (checkPrecisionMovement e st) = completions st + 1
            \<and> \<not> isMoving (checkPrecisionMovement e st)
            \<and> \<not> isPrecisionMode (checkPrecisionMovement e st)
            \<and> speedMotorAB (checkPrecisionMovement e st) = 0
            \<and> speedMotorab (checkPrecisionMovement e st) = 0)"
  using assms
  by (auto simp add: checkPrecisionMovement_def moving_distance_def move_time_def Let_def UTS_ENABLED_def)

lemma idle_passes_emit_nothing:
  "\<not> isMoving st \<Longrightarrow> \<forall>e \<in> set es. serial_line e = None \<Longrightarrow>
     \<not> isMoving (loops tf es st) \<and> completions (loops tf es st) = completions st
     \<and> pausedForObstacle (loops tf es st) = pausedForObstacle st"
proof (induction es arbitrary: st)
  case Nil
  then show ?case by simp
next
  case (Cons e es)
  have "loop tf e st = publishObstacle (top_distances e) st"
    using Cons.prems by (simp add: loop_def UTS_ENABLED_def Let_def)
  then show ?case using Cons by simp
qed




text \<open>
  Once a distance move has been paused, no pass of the loop without a new command prints
  a completion line or resumes the move, however long the loop runs.
\<close>

lemma paused_move_is_abandoned:
  assumes "moving_distance t0 inches st"
      and "serial_line e = None"
      and "obstacleLatched (checkForObstacles (check_distances (check e))
                             (publishObstacle (top_distances e) st))"
      and "\<forall>e' \<in> set es. serial_line e' = None"
  shows "completions (loops tf (e # es) st) = completions st
         \<and> \<not> isMoving (loops tf (e # es) st)
         \<and> pausedForObstacle (loops tf (e # es) st)"
proof -
  let ?st1 = "publishObstacle (top_distances e) st"
  have m: "moving_distance t0 inches ?st1"
    using assms(1) by (simp add: moving_distance_def)
  have l: "loop tf e st = checkPrecisionMovement (check e) ?st1"
    using assms(1,2) by (simp add: loop_def UTS_ENABLED_def moving_distance_def Let_def)
  note p = check_move_paused [OF m assms(3)]
  from p have idle: "\<not> isMoving (loop tf e st)" by (simp add: l)
  from idle_passes_emit_nothing [OF idle assms(4), of tf] p
  show ?thesis by (simp add: l)
qed

text \<open>
  Claim C2 asks that every accepted MOVE_DISTANCE ends with MOVEMENT_COMPLETE:SUCCESS once
  the effective elapsed time reaches the target. In the run \<open>obstacle_scenario\<close> the move
  of 24 inches (target 8000 ms) is accepted and running at clock 1000; the obstacle seen
  at clock 2000 pauses it, and the pause, through \<open>stopMotors\<close>, clears \<open>isMoving\<close>. The
  obstacle is gone from clock 4000 on, yet at clock 20000 no MOVEMENT_RESUMED and no
  MOVEMENT_COMPLETE:SUCCESS line has been printed, the motors are off and the sketch sits
  with \<open>isPrecisionMode\<close> and \<open>pausedForObstacle\<close> still set.
\<close>

theorem paused_move_never_completes:
  "moving_distance 0 24
     (loops (\<lambda>s. 24) [(tick 0 far far)\<lparr>serial_line := Some ''MOVE_DISTANCE:24''\<rparr>,
                        tick 1000 near near] booted)
   \<and> move_time 24 = 8000
   \<and> MOVEMENT_PAUSED_OBSTACLE \<in> set (serialOut after_pause)
   \<and> OBSTACLE_CLEARED \<in> set (serialOut after_pause)
   \<and> MOVEMENT_RESUMED \<notin> set (serialOut after_pause)
   \<and> MOVEMENT_COMPLETE_SUCCESS \<notin> set (serialOut after_pause)
   \<and> completions after_pause = 0
   \<and> \<not> isMoving after_pause \<and> isPrecisionMode after_pause \<and> pausedForObstacle after_pause
   \<and> totalPausedMs after_pause = 0
   \<and> speedMotorAB after_pause = 0 \<and> speedMotorab after_pause = 0"
proof -
  have "moving_distance 0 24
     (loops (\<lambda>s. 24) [(tick 0 far far)\<lparr>serial_line := Some ''MOVE_DISTANCE:24''\<rparr>,
                        tick 1000 near near] booted)"
    by (simp add: moving_distance_def eval_defs)
  then show ?thesis
    by (simp add: move_time_24 after_pause_eq completions_def)
qed

end
